theory Spec2Isabelle
  imports Complex_Main
begin

section \<open>Data model\<close>

text \<open>
  The source type \<open>real\<close> (a build-time alias of a floating-point type) is modelled by the
  mathematical reals: the development verifies the arithmetic the code is written to
  perform, without rounding. Division is HOL's total \<open>/\<close>, which agrees with the source
  wherever the divisor is not zero; a statement about the value of a quotient is meant
  there, and the theorems on the tractions show their divisor to be positive.

  Arrays reached through pointers (\<open>real (*x)[numPaddedPoints]\<close>, \<open>std::array\<close> buffers) are
  index functions; a two-dimensional array is indexed face (or time index) first, point
  second. The compile-time extents \<open>misc::numPaddedPoints\<close> and
  \<open>misc::numberOfBoundaryGaussPoints\<close> (declared in Misc.h, which is not part of the
  sources at hand) are parameters of every loop that runs up to them.
\<close>

definition upd2 :: "(nat \<Rightarrow> nat \<Rightarrow> 'a) \<Rightarrow> nat \<Rightarrow> nat \<Rightarrow> 'a \<Rightarrow> nat \<Rightarrow> nat \<Rightarrow> 'a" where
  \<comment> \<open>the assignment \<open>a[i][j] = v\<close>\<close>
  "upd2 a i j v = a(i := (a i)(j := v))"

text \<open>
  Modelled from the spec: \<open>misc::magnitude\<close> is declared in Misc.h, which is missing;
  the specification gives the magnitude of the two shear components as
  \<open>sqrt(T1^2 + T2^2)\<close>.
\<close>

definition magnitude :: "real \<Rightarrow> real \<Rightarrow> real" where
  "magnitude t1 t2 = sqrt (t1\<^sup>2 + t2\<^sup>2)"

text \<open>\<open>FaultStresses\<close> and \<open>TractionResults\<close>: indexed \<open>[timeIndex][pointIndex]\<close>.\<close>

record FaultStresses =
  normalStress :: "nat \<Rightarrow> nat \<Rightarrow> real"
  fs_traction1 :: "nat \<Rightarrow> nat \<Rightarrow> real"
  fs_traction2 :: "nat \<Rightarrow> nat \<Rightarrow> real"

record TractionResults =
  tr_traction1 :: "nat \<Rightarrow> nat \<Rightarrow> real"
  tr_traction2 :: "nat \<Rightarrow> nat \<Rightarrow> real"

text \<open>The two members of \<open>impAndEta[ltsFace]\<close> that the friction law reads.\<close>

record ImpedancesAndEta =
  etaS :: real
  invEtaS :: real

text \<open>
  The members of the friction-law object (\<open>this->...\<close> in \<open>LinearSlipWeakeningLaw\<close> and its
  base class) that the functions below read or write.
\<close>

record FrictionLaw =
  initialStressInFaultCS :: "nat \<Rightarrow> nat \<Rightarrow> nat \<Rightarrow> real"
  impAndEta :: "nat \<Rightarrow> ImpedancesAndEta"
  deltaT :: "nat \<Rightarrow> real"
  mFullUpdateTime :: real
  slipRateMagnitude :: "nat \<Rightarrow> nat \<Rightarrow> real"
  slipRate1 :: "nat \<Rightarrow> nat \<Rightarrow> real"
  slipRate2 :: "nat \<Rightarrow> nat \<Rightarrow> real"
  traction1 :: "nat \<Rightarrow> nat \<Rightarrow> real"
  traction2 :: "nat \<Rightarrow> nat \<Rightarrow> real"
  slip1 :: "nat \<Rightarrow> nat \<Rightarrow> real"
  slip2 :: "nat \<Rightarrow> nat \<Rightarrow> real"
  mu :: "nat \<Rightarrow> nat \<Rightarrow> real"
  accumulatedSlipMagnitude :: "nat \<Rightarrow> nat \<Rightarrow> real"
  ruptureTimePending :: "nat \<Rightarrow> nat \<Rightarrow> bool"
  ruptureTime :: "nat \<Rightarrow> nat \<Rightarrow> real"
  dynStressTimePending :: "nat \<Rightarrow> nat \<Rightarrow> bool"
  dynStressTime :: "nat \<Rightarrow> nat \<Rightarrow> real"
  dC :: "nat \<Rightarrow> nat \<Rightarrow> real"
  muS :: "nat \<Rightarrow> nat \<Rightarrow> real"
  muD :: "nat \<Rightarrow> nat \<Rightarrow> real"
  cohesion :: "nat \<Rightarrow> nat \<Rightarrow> real"

section \<open>The slip-rate and traction stage\<close>

definition totalTraction1 :: "FrictionLaw \<Rightarrow> FaultStresses \<Rightarrow> nat \<Rightarrow> nat \<Rightarrow> nat \<Rightarrow> real" where
  "totalTraction1 s fs timeIndex ltsFace pointIndex =
     initialStressInFaultCS s ltsFace pointIndex 3 + fs_traction1 fs timeIndex pointIndex"

definition totalTraction2 :: "FrictionLaw \<Rightarrow> FaultStresses \<Rightarrow> nat \<Rightarrow> nat \<Rightarrow> nat \<Rightarrow> real" where
  "totalTraction2 s fs timeIndex ltsFace pointIndex =
     initialStressInFaultCS s ltsFace pointIndex 5 + fs_traction2 fs timeIndex pointIndex"

definition divisor :: "FrictionLaw \<Rightarrow> (nat \<Rightarrow> real) \<Rightarrow> nat \<Rightarrow> nat \<Rightarrow> real" where
  \<comment> \<open>read after \<open>slipRateMagnitude[ltsFace][pointIndex]\<close> has been assigned\<close>
  "divisor s strength ltsFace pointIndex =
     strength pointIndex + etaS (impAndEta s ltsFace) * slipRateMagnitude s ltsFace pointIndex"

text \<open>
  One iteration of the loop over \<open>pointIndex\<close>, statement by statement. The first
  statement, the assignment to \<open>slipRateMagnitude[ltsFace][pointIndex]\<close>, has a name of
  its own: the divisor is read in the state it leaves.
\<close>

definition assignSlipRateMagnitude ::
  "FaultStresses \<Rightarrow> (nat \<Rightarrow> real) \<Rightarrow> nat \<Rightarrow> nat \<Rightarrow> nat \<Rightarrow> FrictionLaw \<Rightarrow> FrictionLaw" where
  "assignSlipRateMagnitude fs strength timeIndex ltsFace pointIndex s =
     (let absoluteTraction = magnitude (totalTraction1 s fs timeIndex ltsFace pointIndex)
                                       (totalTraction2 s fs timeIndex ltsFace pointIndex)
      in s\<lparr>slipRateMagnitude := upd2 (slipRateMagnitude s) ltsFace pointIndex
             (max 0 ((absoluteTraction - strength pointIndex) * invEtaS (impAndEta s ltsFace)))\<rparr>)"

definition calcSlipRateAndTraction_point ::
  "FaultStresses \<Rightarrow> (nat \<Rightarrow> real) \<Rightarrow> nat \<Rightarrow> nat \<Rightarrow> nat \<Rightarrow>
   TractionResults \<times> FrictionLaw \<Rightarrow> TractionResults \<times> FrictionLaw" where
  "calcSlipRateAndTraction_point fs strength timeIndex ltsFace pointIndex trs =
     (let tr = fst trs; s = snd trs;
          tT1 = totalTraction1 s fs timeIndex ltsFace pointIndex;
          tT2 = totalTraction2 s fs timeIndex ltsFace pointIndex;
          s = assignSlipRateMagnitude fs strength timeIndex ltsFace pointIndex s;
          d = divisor s strength ltsFace pointIndex;
          s = s\<lparr>slipRate1 := upd2 (slipRate1 s) ltsFace pointIndex
                (slipRateMagnitude s ltsFace pointIndex * tT1 / d)\<rparr>;
          s = s\<lparr>slipRate2 := upd2 (slipRate2 s) ltsFace pointIndex
                (slipRateMagnitude s ltsFace pointIndex * tT2 / d)\<rparr>;
          tr = tr\<lparr>tr_traction1 := upd2 (tr_traction1 tr) timeIndex pointIndex
                (fs_traction1 fs timeIndex pointIndex
                 - etaS (impAndEta s ltsFace) * slipRate1 s ltsFace pointIndex)\<rparr>;
          tr = tr\<lparr>tr_traction2 := upd2 (tr_traction2 tr) timeIndex pointIndex
                (fs_traction2 fs timeIndex pointIndex
                 - etaS (impAndEta s ltsFace) * slipRate2 s ltsFace pointIndex)\<rparr>;
          s = s\<lparr>traction1 := upd2 (traction1 s) ltsFace pointIndex
                (tr_traction1 tr timeIndex pointIndex)\<rparr>;
          s = s\<lparr>traction2 := upd2 (traction2 s) ltsFace pointIndex
                (tr_traction2 tr timeIndex pointIndex)\<rparr>;
          s = s\<lparr>slip1 := upd2 (slip1 s) ltsFace pointIndex
                (slip1 s ltsFace pointIndex + slipRate1 s ltsFace pointIndex * deltaT s timeIndex)\<rparr>;
          s = s\<lparr>slip2 := upd2 (slip2 s) ltsFace pointIndex
                (slip2 s ltsFace pointIndex + slipRate2 s ltsFace pointIndex * deltaT s timeIndex)\<rparr>
      in (tr, s))"

definition calcSlipRateAndTraction ::
  "nat \<Rightarrow> FaultStresses \<Rightarrow> TractionResults \<Rightarrow> (nat \<Rightarrow> real) \<Rightarrow> nat \<Rightarrow> nat \<Rightarrow>
   FrictionLaw \<Rightarrow> TractionResults \<times> FrictionLaw" where
  "calcSlipRateAndTraction numPaddedPoints fs tr strength timeIndex ltsFace s =
     fold (calcSlipRateAndTraction_point fs strength timeIndex ltsFace) [0..<numPaddedPoints] (tr, s)"

section \<open>Specialization hooks\<close>

text \<open>
  The template parameter \<open>SpecializationT\<close> supplies two hooks. \<open>strengthHook\<close> receives
  five of its arguments by reference (strength, slip rate, normal stress, friction
  coefficient, time increment), so its model returns their new values;
  \<open>stateVariableHook\<close> receives the state-variable buffer by reference and returns it.
\<close>

record Specialization =
  strengthHook :: "real \<Rightarrow> real \<Rightarrow> real \<Rightarrow> real \<Rightarrow> real \<Rightarrow> nat \<Rightarrow> nat
                     \<Rightarrow> real \<times> real \<times> real \<times> real \<times> real"
  stateVariableHook :: "(nat \<Rightarrow> real) \<Rightarrow> real \<Rightarrow> nat \<Rightarrow> nat \<Rightarrow> real"

text \<open>\<open>NoSpecialization\<close>: both hooks have an empty body.\<close>

definition NoSpecialization :: Specialization where
  "NoSpecialization =
     \<lparr>strengthHook = (\<lambda>strength localSlipRate sigma muRef dt ltsFace pointIndex.
                        (strength, localSlipRate, sigma, muRef, dt)),
      stateVariableHook = (\<lambda>stateVariable time ltsFace. stateVariable)\<rparr>"

section \<open>The strength stage\<close>

definition calcStrengthHook_point ::
  "Specialization \<Rightarrow> FaultStresses \<Rightarrow> nat \<Rightarrow> nat \<Rightarrow> nat \<Rightarrow>
   (nat \<Rightarrow> real) \<times> FrictionLaw \<Rightarrow> (nat \<Rightarrow> real) \<times> FrictionLaw" where
  "calcStrengthHook_point sp fs timeIndex ltsFace pointIndex ss =
     (let strength = fst ss; s = snd ss;
          totalNormalStress = initialStressInFaultCS s ltsFace pointIndex 0
                              + normalStress fs timeIndex pointIndex;
          strength = strength(pointIndex :=
                       - cohesion s ltsFace pointIndex
                       - mu s ltsFace pointIndex * min totalNormalStress 0);
          (st, sr, sg, m, dt) =
             strengthHook sp (strength pointIndex) (slipRateMagnitude s ltsFace pointIndex)
               totalNormalStress (mu s ltsFace pointIndex) (deltaT s timeIndex)
               ltsFace pointIndex
      in (strength(pointIndex := st),
          s\<lparr>slipRateMagnitude := upd2 (slipRateMagnitude s) ltsFace pointIndex sr,
            mu := upd2 (mu s) ltsFace pointIndex m,
            deltaT := (deltaT s)(timeIndex := dt)\<rparr>))"

definition calcStrengthHook ::
  "nat \<Rightarrow> Specialization \<Rightarrow> FaultStresses \<Rightarrow> (nat \<Rightarrow> real) \<Rightarrow> nat \<Rightarrow> nat \<Rightarrow>
   FrictionLaw \<Rightarrow> (nat \<Rightarrow> real) \<times> FrictionLaw" where
  "calcStrengthHook numPaddedPoints sp fs strength timeIndex ltsFace s =
     fold (calcStrengthHook_point sp fs timeIndex ltsFace) [0..<numPaddedPoints] (strength, s)"

section \<open>The state-variable stage\<close>

text \<open>
  Modelled from the spec: the generated kernel \<open>resampleParameter\<close> and its table
  \<open>init::resample::Values\<close> are not among the sources; the specification describes the
  kernel as a dense matrix-vector product. The matrix is a parameter.
\<close>

definition resampleKrnl_execute ::
  "nat \<Rightarrow> (nat \<Rightarrow> nat \<Rightarrow> real) \<Rightarrow> (nat \<Rightarrow> real) \<Rightarrow> nat \<Rightarrow> real" where
  "resampleKrnl_execute numPaddedPoints resample originalQ =
     (\<lambda>i. sum_list (map (\<lambda>j. resample i j * originalQ j) [0..<numPaddedPoints]))"

definition calcStateVariableHook_point ::
  "(nat \<Rightarrow> real) \<Rightarrow> nat \<Rightarrow> nat \<Rightarrow> nat \<Rightarrow>
   (nat \<Rightarrow> real) \<times> FrictionLaw \<Rightarrow> (nat \<Rightarrow> real) \<times> FrictionLaw" where
  "calcStateVariableHook_point resampledSlipRate timeIndex ltsFace pointIndex vs =
     (let stateVariable = fst vs; s = snd vs;
          s = s\<lparr>accumulatedSlipMagnitude :=
                 upd2 (accumulatedSlipMagnitude s) ltsFace pointIndex
                   (accumulatedSlipMagnitude s ltsFace pointIndex
                    + resampledSlipRate pointIndex * deltaT s timeIndex)\<rparr>
      in (stateVariable(pointIndex :=
            min (\<bar>accumulatedSlipMagnitude s ltsFace pointIndex\<bar> / dC s ltsFace pointIndex) 1),
          s))"

definition calcStateVariableHook ::
  "nat \<Rightarrow> (nat \<Rightarrow> nat \<Rightarrow> real) \<Rightarrow> Specialization \<Rightarrow> (nat \<Rightarrow> real) \<Rightarrow> nat \<Rightarrow> nat \<Rightarrow>
   FrictionLaw \<Rightarrow> (nat \<Rightarrow> real) \<times> FrictionLaw" where
  "calcStateVariableHook numPaddedPoints resample sp stateVariable timeIndex ltsFace s =
     (let resampledSlipRate =
            resampleKrnl_execute numPaddedPoints resample (slipRateMagnitude s ltsFace);
          vs = fold (calcStateVariableHook_point resampledSlipRate timeIndex ltsFace)
                 [0..<numPaddedPoints] (stateVariable, s)
      in (stateVariableHook sp (fst vs) (mFullUpdateTime (snd vs) + deltaT (snd vs) timeIndex)
            ltsFace,
          snd vs))"

section \<open>The coefficient stage, healing and the four-stage sequence\<close>

definition frictionFunctionHook :: "nat \<Rightarrow> (nat \<Rightarrow> real) \<Rightarrow> nat \<Rightarrow> FrictionLaw \<Rightarrow> FrictionLaw" where
  "frictionFunctionHook numPaddedPoints stateVariable ltsFace s =
     fold (\<lambda>pointIndex s.
             s\<lparr>mu := upd2 (mu s) ltsFace pointIndex
                  (muS s ltsFace pointIndex
                   - (muS s ltsFace pointIndex - muD s ltsFace pointIndex)
                     * stateVariable pointIndex)\<rparr>)
       [0..<numPaddedPoints] s"



definition updateFrictionAndSlip ::
  "nat \<Rightarrow> (nat \<Rightarrow> nat \<Rightarrow> real) \<Rightarrow> Specialization \<Rightarrow> FaultStresses \<Rightarrow> TractionResults \<Rightarrow>
   (nat \<Rightarrow> real) \<Rightarrow> (nat \<Rightarrow> real) \<Rightarrow> nat \<Rightarrow> nat \<Rightarrow> FrictionLaw \<Rightarrow>
   TractionResults \<times> (nat \<Rightarrow> real) \<times> (nat \<Rightarrow> real) \<times> FrictionLaw" where
  "updateFrictionAndSlip numPaddedPoints resample sp fs tr stateVariableBuffer strengthBuffer
       ltsFace timeIndex s =
     (let ss = calcStrengthHook numPaddedPoints sp fs strengthBuffer timeIndex ltsFace s;
          trs = calcSlipRateAndTraction numPaddedPoints fs tr (fst ss) timeIndex ltsFace (snd ss);
          vs = calcStateVariableHook numPaddedPoints resample sp stateVariableBuffer
                 timeIndex ltsFace (snd trs)
      in (fst trs, fst vs, fst ss,
          frictionFunctionHook numPaddedPoints (fst vs) ltsFace (snd vs)))"

section \<open>Diagnostics\<close>

definition saveDynamicStressOutput :: "nat \<Rightarrow> nat \<Rightarrow> FrictionLaw \<Rightarrow> FrictionLaw" where
  "saveDynamicStressOutput numPaddedPoints ltsFace s =
     fold (\<lambda>pointIndex s.
             if dynStressTimePending s ltsFace pointIndex
                \<and> \<bar>accumulatedSlipMagnitude s ltsFace pointIndex\<bar> \<ge> dC s ltsFace pointIndex
             then s\<lparr>dynStressTime := upd2 (dynStressTime s) ltsFace pointIndex (mFullUpdateTime s),
                    dynStressTimePending :=
                      upd2 (dynStressTimePending s) ltsFace pointIndex False\<rparr>
             else s)
       [0..<numPaddedPoints] s"

definition ruptureFrontThreshold :: real where
  "ruptureFrontThreshold = 1 / 1000"

text \<open>
  \<open>Common::saveRuptureFrontOutput\<close> is static: the flag array, the time array, the slip-rate
  array and the time are its arguments; the first two are updated in place.
\<close>

definition saveRuptureFrontOutput ::
  "nat \<Rightarrow> (nat \<Rightarrow> bool) \<Rightarrow> (nat \<Rightarrow> real) \<Rightarrow> (nat \<Rightarrow> real) \<Rightarrow> real
   \<Rightarrow> (nat \<Rightarrow> bool) \<times> (nat \<Rightarrow> real)" where
  "saveRuptureFrontOutput numPaddedPoints ruptureTimePending0 ruptureTime0 slipRateMagnitude0
       fullUpdateTime =
     fold (\<lambda>pointIndex pt.
             if fst pt pointIndex \<and> slipRateMagnitude0 pointIndex > ruptureFrontThreshold
             then ((fst pt)(pointIndex := False), (snd pt)(pointIndex := fullUpdateTime))
             else pt)
       [0..<numPaddedPoints] (ruptureTimePending0, ruptureTime0)"

definition saveAverageSlipOutput :: "nat \<Rightarrow> (nat \<Rightarrow> real) \<Rightarrow> real \<Rightarrow> real" where
  "saveAverageSlipOutput numberOfBoundaryGaussPoints tmpSlip averagedSlip =
     (let sumOfTmpSlip = fold (\<lambda>pointIndex acc. acc + tmpSlip pointIndex)
                           [0..<numberOfBoundaryGaussPoints] 0
      in averagedSlip + sumOfTmpSlip / real numberOfBoundaryGaussPoints)"

text \<open>
  A run of the diagnostics on one friction-law object. \<open>saveRuptureFrontOutput\<close> is applied
  to the face's rows of the pending flags and rupture times, with any slip-rate array and
  time as the other two arguments; \<open>saveDynamicStressOutput\<close> is the member function;
  \<open>OtherWork\<close> is whatever else runs in between (the friction stages, the time stepping).
\<close>

datatype DiagnosticsCall =
    SaveRuptureFrontOutput nat "nat \<Rightarrow> real" real
  | SaveDynamicStressOutput nat
  | OtherWork "FrictionLaw \<Rightarrow> FrictionLaw"

fun call :: "nat \<Rightarrow> DiagnosticsCall \<Rightarrow> FrictionLaw \<Rightarrow> FrictionLaw" where
  "call numPaddedPoints (SaveRuptureFrontOutput ltsFace slipRates fullUpdateTime) s =
     (let pt = saveRuptureFrontOutput numPaddedPoints (ruptureTimePending s ltsFace)
                 (ruptureTime s ltsFace) slipRates fullUpdateTime
      in s\<lparr>ruptureTimePending := (ruptureTimePending s)(ltsFace := fst pt),
            ruptureTime := (ruptureTime s)(ltsFace := snd pt)\<rparr>)"
| "call numPaddedPoints (SaveDynamicStressOutput ltsFace) s =
     saveDynamicStressOutput numPaddedPoints ltsFace s"
| "call numPaddedPoints (OtherWork g) s = g s"

fun trace :: "nat \<Rightarrow> DiagnosticsCall list \<Rightarrow> FrictionLaw \<Rightarrow> FrictionLaw list" where
  \<comment> \<open>the states before, between and after the calls\<close>
  "trace numPaddedPoints [] s = [s]"
| "trace numPaddedPoints (c # cs) s = s # trace numPaddedPoints cs (call numPaddedPoints c s)"

definition keepsDiagnostics :: "DiagnosticsCall \<Rightarrow> bool" where
  \<comment> \<open>other work does not write the four diagnostic arrays\<close>
  "keepsDiagnostics c =
     (case c of
        OtherWork g \<Rightarrow>
          (\<forall>s. ruptureTimePending (g s) = ruptureTimePending s
              \<and> ruptureTime (g s) = ruptureTime s
              \<and> dynStressTimePending (g s) = dynStressTimePending s
              \<and> dynStressTime (g s) = dynStressTime s)
      | _ \<Rightarrow> True)"

fun falling :: "bool list \<Rightarrow> nat" where
  \<comment> \<open>the number of steps from true to false\<close>
  "falling (a # b # bs) = (if a \<and> \<not> b then 1 else 0) + falling (b # bs)"
| "falling _ = 0"

fun rising :: "bool list \<Rightarrow> nat" where
  \<comment> \<open>the number of steps from false to true\<close>
  "rising (a # b # bs) = (if \<not> a \<and> b then 1 else 0) + rising (b # bs)"
| "rising _ = 0"

section \<open>The imposed-state kernel driver\<close>

text \<open>
  The generated kernels \<open>computeImposedStateM\<close> and \<open>computeImposedStateP\<close> are not among
  the sources. Each reads the constant tables, an impedance matrix, \<open>theta\<close>, one side's
  interpolated degrees of freedom and a weight, and reads and writes its \<open>imposedState\<close>
  buffer; they are parameters here, arbitrary functions of those inputs. The two
  imposed-state buffers are lists of \<open>tensor::QInterpolated::size()\<close> reals, a third extent
  taken as a parameter, like \<open>CONVERGENCE_ORDER\<close>.
\<close>

record ImpedanceMatrices =
  impedance :: "real list"
  impedanceNeig :: "real list"
  eta :: "real list"

type_synonym imposedStateKernel =
  "(nat \<Rightarrow> nat \<Rightarrow> real) \<Rightarrow> real list \<Rightarrow> real list \<Rightarrow> real \<Rightarrow> real list \<Rightarrow> real list"

definition copyTheta ::
  "nat \<Rightarrow> FaultStresses \<Rightarrow> TractionResults \<Rightarrow> nat \<Rightarrow> (nat \<Rightarrow> nat \<Rightarrow> real) \<Rightarrow> nat \<Rightarrow> nat \<Rightarrow> real" where
  \<comment> \<open>the inner loop: copy values to the kernel's data format\<close>
  "copyTheta numPaddedPoints fs tr o_idx thetaView =
     fold (\<lambda>i th. upd2 (upd2 (upd2 th i 0 (normalStress fs o_idx i))
                           i 1 (tr_traction1 tr o_idx i))
                           i 2 (tr_traction2 tr o_idx i))
       [0..<numPaddedPoints] thetaView"

definition postcomputeImposedStateFromNewStress ::
  "nat \<Rightarrow> nat \<Rightarrow> nat \<Rightarrow> imposedStateKernel \<Rightarrow> imposedStateKernel \<Rightarrow>
   FaultStresses \<Rightarrow> TractionResults \<Rightarrow> ImpedanceMatrices \<Rightarrow> real list \<Rightarrow> real list \<Rightarrow>
   (nat \<Rightarrow> real list) \<Rightarrow> (nat \<Rightarrow> real list) \<Rightarrow> (nat \<Rightarrow> real) \<Rightarrow> real list \<times> real list" where
  "postcomputeImposedStateFromNewStress convergenceOrder numPaddedPoints qInterpolatedSize
       krnlM krnlP fs tr impedanceMatrices imposedStatePlus imposedStateMinus
       qInterpolatedPlus qInterpolatedMinus timeWeights =
     (let zeroed = fold (\<lambda>i pm. ((fst pm)[i := 0], (snd pm)[i := 0]))
                     [0..<qInterpolatedSize] (imposedStatePlus, imposedStateMinus);
          thetaBuffer = (\<lambda>i k. 0);
          final = fold (\<lambda>o_idx (theta, plus, minus).
                    let weight = timeWeights o_idx;
                        theta = copyTheta numPaddedPoints fs tr o_idx theta;
                        minus = krnlM theta (impedance impedanceMatrices)
                                  (qInterpolatedMinus o_idx) weight minus;
                        plus = krnlP theta (impedanceNeig impedanceMatrices)
                                 (qInterpolatedPlus o_idx) weight plus
                    in (theta, plus, minus))
                    [0..<convergenceOrder] (thetaBuffer, fst zeroed, snd zeroed)
      in (fst (snd final), snd (snd final)))"

section \<open>Closed forms of the loops\<close>

text \<open>
  What each loop over the points leaves after its first \<open>n\<close> iterations, written without
  the loop. These are not part of the model: each is proved equal to the loop it
  describes, and the theorems about the stages are read off from it.
\<close>

definition predictedSlipRateMagnitude ::
  "FrictionLaw \<Rightarrow> FaultStresses \<Rightarrow> (nat \<Rightarrow> real) \<Rightarrow> nat \<Rightarrow> nat \<Rightarrow> nat \<Rightarrow> real" where
  "predictedSlipRateMagnitude s fs strength t f p =
     max 0 ((magnitude (totalTraction1 s fs t f p) (totalTraction2 s fs t f p) - strength p)
            * invEtaS (impAndEta s f))"

definition predictedDivisor ::
  "FrictionLaw \<Rightarrow> FaultStresses \<Rightarrow> (nat \<Rightarrow> real) \<Rightarrow> nat \<Rightarrow> nat \<Rightarrow> nat \<Rightarrow> real" where
  "predictedDivisor s fs strength t f p =
     strength p + etaS (impAndEta s f) * predictedSlipRateMagnitude s fs strength t f p"

definition predictedSlipRate1 ::
  "FrictionLaw \<Rightarrow> FaultStresses \<Rightarrow> (nat \<Rightarrow> real) \<Rightarrow> nat \<Rightarrow> nat \<Rightarrow> nat \<Rightarrow> real" where
  "predictedSlipRate1 s fs strength t f p =
     predictedSlipRateMagnitude s fs strength t f p * totalTraction1 s fs t f p
       / predictedDivisor s fs strength t f p"

definition predictedSlipRate2 ::
  "FrictionLaw \<Rightarrow> FaultStresses \<Rightarrow> (nat \<Rightarrow> real) \<Rightarrow> nat \<Rightarrow> nat \<Rightarrow> nat \<Rightarrow> real" where
  "predictedSlipRate2 s fs strength t f p =
     predictedSlipRateMagnitude s fs strength t f p * totalTraction2 s fs t f p
       / predictedDivisor s fs strength t f p"

definition slipRateAndTraction_upto ::
  "nat \<Rightarrow> FaultStresses \<Rightarrow> TractionResults \<Rightarrow> (nat \<Rightarrow> real) \<Rightarrow> nat \<Rightarrow> nat \<Rightarrow>
   FrictionLaw \<Rightarrow> TractionResults \<times> FrictionLaw" where
  "slipRateAndTraction_upto n fs tr strength t f s =
    (tr\<lparr>tr_traction1 := (\<lambda>t' q. if t' = t \<and> q < n
            then fs_traction1 fs t q - etaS (impAndEta s f) * predictedSlipRate1 s fs strength t f q
            else tr_traction1 tr t' q),
         tr_traction2 := (\<lambda>t' q. if t' = t \<and> q < n
            then fs_traction2 fs t q - etaS (impAndEta s f) * predictedSlipRate2 s fs strength t f q
            else tr_traction2 tr t' q)\<rparr>,
     s\<lparr>slipRateMagnitude := (\<lambda>f' q. if f' = f \<and> q < n
            then predictedSlipRateMagnitude s fs strength t f q else slipRateMagnitude s f' q),
       slipRate1 := (\<lambda>f' q. if f' = f \<and> q < n
            then predictedSlipRate1 s fs strength t f q else slipRate1 s f' q),
       slipRate2 := (\<lambda>f' q. if f' = f \<and> q < n
            then predictedSlipRate2 s fs strength t f q else slipRate2 s f' q),
       traction1 := (\<lambda>f' q. if f' = f \<and> q < n
            then fs_traction1 fs t q - etaS (impAndEta s f) * predictedSlipRate1 s fs strength t f q
            else traction1 s f' q),
       traction2 := (\<lambda>f' q. if f' = f \<and> q < n
            then fs_traction2 fs t q - etaS (impAndEta s f) * predictedSlipRate2 s fs strength t f q
            else traction2 s f' q),
       slip1 := (\<lambda>f' q. if f' = f \<and> q < n
            then slip1 s f q + predictedSlipRate1 s fs strength t f q * deltaT s t
            else slip1 s f' q),
       slip2 := (\<lambda>f' q. if f' = f \<and> q < n
            then slip2 s f q + predictedSlipRate2 s fs strength t f q * deltaT s t
            else slip2 s f' q)\<rparr>)"

text \<open>The strength stage with an empty strength hook, and the state-variable loop.\<close>

definition strengthFormula :: "FrictionLaw \<Rightarrow> FaultStresses \<Rightarrow> nat \<Rightarrow> nat \<Rightarrow> nat \<Rightarrow> real" where
  "strengthFormula s fs t f p =
     - cohesion s f p - mu s f p * min (initialStressInFaultCS s f p 0 + normalStress fs t p) 0"

definition integratedSlip :: "FrictionLaw \<Rightarrow> (nat \<Rightarrow> real) \<Rightarrow> nat \<Rightarrow> nat \<Rightarrow> nat \<Rightarrow> real" where
  "integratedSlip s resampledSlipRate t f p =
     accumulatedSlipMagnitude s f p + resampledSlipRate p * deltaT s t"

definition stateVariable_upto ::
  "nat \<Rightarrow> (nat \<Rightarrow> real) \<Rightarrow> (nat \<Rightarrow> real) \<Rightarrow> nat \<Rightarrow> nat \<Rightarrow> FrictionLaw
   \<Rightarrow> (nat \<Rightarrow> real) \<times> FrictionLaw" where
  "stateVariable_upto n resampledSlipRate stateVariable t f s =
     ((\<lambda>q. if q < n then min (\<bar>integratedSlip s resampledSlipRate t f q\<bar> / dC s f q) 1
            else stateVariable q),
      s\<lparr>accumulatedSlipMagnitude :=
           (\<lambda>f' q. if f' = f \<and> q < n then integratedSlip s resampledSlipRate t f q
                    else accumulatedSlipMagnitude s f' q)\<rparr>)"

section \<open>Example inputs\<close>

definition exampleLaw :: FrictionLaw where
  "exampleLaw =
     \<lparr>initialStressInFaultCS = (\<lambda>f p c. if c = 0 then - 4 else if c = 3 then 2 else 0),
      impAndEta = (\<lambda>f. \<lparr>etaS = 2, invEtaS = 1 / 2\<rparr>),
      deltaT = (\<lambda>t. 1),
      mFullUpdateTime = 7,
      slipRateMagnitude = (\<lambda>f p. 0),
      slipRate1 = (\<lambda>f p. 0),
      slipRate2 = (\<lambda>f p. 0),
      traction1 = (\<lambda>f p. 0),
      traction2 = (\<lambda>f p. 0),
      slip1 = (\<lambda>f p. 0),
      slip2 = (\<lambda>f p. 0),
      mu = (\<lambda>f p. 1 / 2),
      accumulatedSlipMagnitude = (\<lambda>f p. 1),
      ruptureTimePending = (\<lambda>f p. True),
      ruptureTime = (\<lambda>f p. 0),
      dynStressTimePending = (\<lambda>f p. True),
      dynStressTime = (\<lambda>f p. 0),
      dC = (\<lambda>f p. 2),
      muS = (\<lambda>f p. 3 / 5),
      muD = (\<lambda>f p. 1 / 5),
      cohesion = (\<lambda>f p. - 1)\<rparr>"

definition exampleStresses :: FaultStresses where
  "exampleStresses =
     \<lparr>normalStress = (\<lambda>t p. - 6), fs_traction1 = (\<lambda>t p. 6), fs_traction2 = (\<lambda>t p. 0)\<rparr>"


definition obliqueStresses :: FaultStresses where
  \<comment> \<open>with \<open>exampleLaw\<close>, a predicted total traction \<open>(6, 8)\<close> of magnitude 10\<close>
  "obliqueStresses =
     \<lparr>normalStress = (\<lambda>t p. - 6), fs_traction1 = (\<lambda>t p. 4), fs_traction2 = (\<lambda>t p. 8)\<rparr>"

definition exampleTractions :: TractionResults where
  "exampleTractions = \<lparr>tr_traction1 = (\<lambda>t p. 0), tr_traction2 = (\<lambda>t p. 0)\<rparr>"

definition positiveCohesionLaw :: FrictionLaw where
  "positiveCohesionLaw = exampleLaw\<lparr>cohesion := (\<lambda>f p. 10)\<rparr>"


definition slippingLaw :: FrictionLaw where
  \<comment> \<open>as \<open>exampleLaw\<close>, slipping at point 1 only\<close>
  "slippingLaw = exampleLaw\<lparr>slipRateMagnitude := (\<lambda>f p. if p = 1 then 1 else 0)\<rparr>"

definition identityResample :: "nat \<Rightarrow> nat \<Rightarrow> real" where
  "identityResample i j = (if i = j then 1 else 0)"

definition paddedSlip :: "nat \<Rightarrow> real" where
  \<comment> \<open>four boundary points of slip 1, and a padded tail that is not zero\<close>
  "paddedSlip p = (if p < 4 then 1 else 100)"

definition accumulatingKernel :: imposedStateKernel where
  \<comment> \<open>adds the weighted first traction of point 0 to every entry of the buffer\<close>
  "accumulatingKernel theta z q weight imposedState =
     map (\<lambda>x. x + weight * theta 0 1) imposedState"

definition unitTractions :: TractionResults where
  "unitTractions = \<lparr>tr_traction1 = (\<lambda>t p. 1), tr_traction2 = (\<lambda>t p. 0)\<rparr>"

definition exampleImpedances :: ImpedanceMatrices where
  "exampleImpedances = \<lparr>impedance = [], impedanceNeig = [], eta = []\<rparr>"

definition exampleCalls :: "DiagnosticsCall list" where
  "exampleCalls =
     [SaveRuptureFrontOutput 0 (\<lambda>p. if p = 0 then 1 else 0) 3,
      OtherWork (\<lambda>s. s\<lparr>mFullUpdateTime := 9, accumulatedSlipMagnitude := (\<lambda>f p. 5)\<rparr>),
      SaveDynamicStressOutput 0,
      SaveRuptureFrontOutput 0 (\<lambda>p. 1) 11]"

section \<open>Array updates, loops and the magnitude\<close>

lemma upd2_same: "upd2 a i j v i j = v"
  by (simp add: upd2_def)

lemma upd2_apply: "upd2 a i j v i' j' = (if i' = i \<and> j' = j then v else a i' j')"
  by (simp add: upd2_def)

lemma upd2_extend:
  "v = A n \<Longrightarrow> upd2 (\<lambda>i q. if i = f \<and> q < n then A q else B i q) f n v
     = (\<lambda>i q. if i = f \<and> q < Suc n then A q else B i q)"
  by (auto simp: fun_eq_iff upd2_apply less_Suc_eq)

lemma upd2_triv: "upd2 a i j (a i j) = a"
  by (simp add: upd2_def)

lemma fun_upd_extend:
  "v = A n \<Longrightarrow> (\<lambda>q. if q < n then A q else B q)(n := v)
     = (\<lambda>q. if q < Suc n then A q else B q)"
  by (auto simp: fun_eq_iff less_Suc_eq)

lemma fold_preserves:
  assumes "\<And>x y. h (g x y) = h y"
  shows "h (fold g xs y) = h y"
  by (induction xs arbitrary: y) (simp_all add: assms)


lemma magnitude_zero_right: "magnitude x 0 = \<bar>x\<bar>"
  by (simp add: magnitude_def)

lemma magnitude_scale: "magnitude (x * c) (y * c) = \<bar>c\<bar> * magnitude x y"
proof -
  have "(x * c)\<^sup>2 + (y * c)\<^sup>2 = c\<^sup>2 * (x\<^sup>2 + y\<^sup>2)"
    by (simp add: power_mult_distrib distrib_left mult.commute)
  then show ?thesis
    by (simp add: magnitude_def real_sqrt_mult)
qed

lemma magnitude_6_8: "magnitude 6 8 = 10"
  unfolding magnitude_def by (rule real_sqrt_unique) simp_all

section \<open>The slip-rate and traction stage, verified\<close>

lemma upto_0: "slipRateAndTraction_upto 0 fs tr strength t f s = (tr, s)"
  by (simp add: slipRateAndTraction_upto_def)

lemma point_eq:
  "calcSlipRateAndTraction_point fs strength t f p (tr, s) =
    (tr\<lparr>tr_traction1 := upd2 (tr_traction1 tr) t p
            (fs_traction1 fs t p - etaS (impAndEta s f) * predictedSlipRate1 s fs strength t f p),
         tr_traction2 := upd2 (tr_traction2 tr) t p
            (fs_traction2 fs t p - etaS (impAndEta s f) * predictedSlipRate2 s fs strength t f p)\<rparr>,
     s\<lparr>slipRateMagnitude := upd2 (slipRateMagnitude s) f p (predictedSlipRateMagnitude s fs strength t f p),
       slipRate1 := upd2 (slipRate1 s) f p (predictedSlipRate1 s fs strength t f p),
       slipRate2 := upd2 (slipRate2 s) f p (predictedSlipRate2 s fs strength t f p),
       traction1 := upd2 (traction1 s) f p
            (fs_traction1 fs t p - etaS (impAndEta s f) * predictedSlipRate1 s fs strength t f p),
       traction2 := upd2 (traction2 s) f p
            (fs_traction2 fs t p - etaS (impAndEta s f) * predictedSlipRate2 s fs strength t f p),
       slip1 := upd2 (slip1 s) f p (slip1 s f p + predictedSlipRate1 s fs strength t f p * deltaT s t),
       slip2 := upd2 (slip2 s) f p (slip2 s f p + predictedSlipRate2 s fs strength t f p * deltaT s t)\<rparr>)"
  by (simp add: calcSlipRateAndTraction_point_def assignSlipRateMagnitude_def Let_def upd2_same
        totalTraction1_def totalTraction2_def divisor_def
        predictedSlipRate1_def predictedSlipRate2_def predictedDivisor_def predictedSlipRateMagnitude_def)

lemma predicted_frame:
  "predictedSlipRateMagnitude (slipRateMagnitude_update g1 s) fs strength t f p = predictedSlipRateMagnitude s fs strength t f p"
  "predictedSlipRateMagnitude (slipRate1_update g2 s) fs strength t f p = predictedSlipRateMagnitude s fs strength t f p"
  "predictedSlipRateMagnitude (slipRate2_update g3 s) fs strength t f p = predictedSlipRateMagnitude s fs strength t f p"
  "predictedSlipRateMagnitude (traction1_update g4 s) fs strength t f p = predictedSlipRateMagnitude s fs strength t f p"
  "predictedSlipRateMagnitude (traction2_update g5 s) fs strength t f p = predictedSlipRateMagnitude s fs strength t f p"
  "predictedSlipRateMagnitude (slip1_update g6 s) fs strength t f p = predictedSlipRateMagnitude s fs strength t f p"
  "predictedSlipRateMagnitude (slip2_update g7 s) fs strength t f p = predictedSlipRateMagnitude s fs strength t f p"
  by (simp_all add: predictedSlipRateMagnitude_def totalTraction1_def totalTraction2_def)

lemma predicted1_frame:
  "predictedSlipRate1 (slipRateMagnitude_update g1 s) fs strength t f p = predictedSlipRate1 s fs strength t f p"
  "predictedSlipRate1 (slipRate1_update g2 s) fs strength t f p = predictedSlipRate1 s fs strength t f p"
  "predictedSlipRate1 (slipRate2_update g3 s) fs strength t f p = predictedSlipRate1 s fs strength t f p"
  "predictedSlipRate1 (traction1_update g4 s) fs strength t f p = predictedSlipRate1 s fs strength t f p"
  "predictedSlipRate1 (traction2_update g5 s) fs strength t f p = predictedSlipRate1 s fs strength t f p"
  "predictedSlipRate1 (slip1_update g6 s) fs strength t f p = predictedSlipRate1 s fs strength t f p"
  "predictedSlipRate1 (slip2_update g7 s) fs strength t f p = predictedSlipRate1 s fs strength t f p"
  by (simp_all add: predictedSlipRate1_def predictedDivisor_def predicted_frame totalTraction1_def)

lemma predicted2_frame:
  "predictedSlipRate2 (slipRateMagnitude_update g1 s) fs strength t f p = predictedSlipRate2 s fs strength t f p"
  "predictedSlipRate2 (slipRate1_update g2 s) fs strength t f p = predictedSlipRate2 s fs strength t f p"
  "predictedSlipRate2 (slipRate2_update g3 s) fs strength t f p = predictedSlipRate2 s fs strength t f p"
  "predictedSlipRate2 (traction1_update g4 s) fs strength t f p = predictedSlipRate2 s fs strength t f p"
  "predictedSlipRate2 (traction2_update g5 s) fs strength t f p = predictedSlipRate2 s fs strength t f p"
  "predictedSlipRate2 (slip1_update g6 s) fs strength t f p = predictedSlipRate2 s fs strength t f p"
  "predictedSlipRate2 (slip2_update g7 s) fs strength t f p = predictedSlipRate2 s fs strength t f p"
  by (simp_all add: predictedSlipRate2_def predictedDivisor_def predicted_frame totalTraction2_def)

lemma point_step:
  "calcSlipRateAndTraction_point fs strength t f n (slipRateAndTraction_upto n fs tr strength t f s)
     = slipRateAndTraction_upto (Suc n) fs tr strength t f s"
  unfolding slipRateAndTraction_upto_def point_eq
  by (simp add: predicted_frame predicted1_frame predicted2_frame upd2_extend)

lemma calcSlipRateAndTraction_closed:
  "calcSlipRateAndTraction n fs tr strength t f s = slipRateAndTraction_upto n fs tr strength t f s"
  unfolding calcSlipRateAndTraction_def
  by (induction n) (simp_all add: upto_0 point_step)

lemma after_slipRateMagnitude:
  "slipRateMagnitude (snd (calcSlipRateAndTraction n fs tr strength t f s)) f' p =
     (if f' = f \<and> p < n then predictedSlipRateMagnitude s fs strength t f p
      else slipRateMagnitude s f' p)"
  by (simp add: calcSlipRateAndTraction_closed slipRateAndTraction_upto_def)

lemma after_tr_traction1:
  "tr_traction1 (fst (calcSlipRateAndTraction n fs tr strength t f s)) t' p =
     (if t' = t \<and> p < n
      then fs_traction1 fs t p - etaS (impAndEta s f) * predictedSlipRate1 s fs strength t f p
      else tr_traction1 tr t' p)"
  by (simp add: calcSlipRateAndTraction_closed slipRateAndTraction_upto_def)

lemma after_tr_traction2:
  "tr_traction2 (fst (calcSlipRateAndTraction n fs tr strength t f s)) t' p =
     (if t' = t \<and> p < n
      then fs_traction2 fs t p - etaS (impAndEta s f) * predictedSlipRate2 s fs strength t f p
      else tr_traction2 tr t' p)"
  by (simp add: calcSlipRateAndTraction_closed slipRateAndTraction_upto_def)



lemma after_inputs:
  "impAndEta (snd (calcSlipRateAndTraction n fs tr strength t f s)) = impAndEta s"
  "initialStressInFaultCS (snd (calcSlipRateAndTraction n fs tr strength t f s)) = initialStressInFaultCS s"
  "accumulatedSlipMagnitude (snd (calcSlipRateAndTraction n fs tr strength t f s)) = accumulatedSlipMagnitude s"
  by (simp_all add: calcSlipRateAndTraction_closed slipRateAndTraction_upto_def)

lemma after_divisor:
  "p < n \<Longrightarrow> divisor (snd (calcSlipRateAndTraction n fs tr strength t f s)) strength f p
     = predictedDivisor s fs strength t f p"
  by (simp add: divisor_def predictedDivisor_def after_slipRateMagnitude after_inputs)

text \<open>
  Claim C1. For every face, time sub-interval and point below the padded point count,
  \<open>calcSlipRateAndTraction\<close> leaves the slip-rate magnitude
  \<open>max(0, (|T| - strength) * invEtaS)\<close>, where \<open>T1\<close>, \<open>T2\<close> are the sums of the initial and the
  kernel-computed shear tractions and \<open>|T|\<close> is their magnitude; so the slip-rate magnitude
  is non-negative after the stage.
\<close>

theorem calcSlipRateAndTraction_slipRateMagnitude:
  assumes "pointIndex < numPaddedPoints"
  shows "slipRateMagnitude
           (snd (calcSlipRateAndTraction numPaddedPoints fs tr strength timeIndex ltsFace s))
           ltsFace pointIndex
         = max 0 ((magnitude
                     (initialStressInFaultCS s ltsFace pointIndex 3 + fs_traction1 fs timeIndex pointIndex)
                     (initialStressInFaultCS s ltsFace pointIndex 5 + fs_traction2 fs timeIndex pointIndex)
                   - strength pointIndex) * invEtaS (impAndEta s ltsFace))
       \<and> 0 \<le> slipRateMagnitude
           (snd (calcSlipRateAndTraction numPaddedPoints fs tr strength timeIndex ltsFace s))
           ltsFace pointIndex"
  using assms
  by (simp add: after_slipRateMagnitude predictedSlipRateMagnitude_def totalTraction1_def
        totalTraction2_def)

theorem calcSlipRateAndTraction_slipRateMagnitude_witness:
  "(1::nat) < 2
   \<and> slipRateMagnitude
        (snd (calcSlipRateAndTraction 2 exampleStresses exampleTractions (\<lambda>p. 5) 0 0 exampleLaw))
        0 1 = 3 / 2
   \<and> 0 \<le> slipRateMagnitude
        (snd (calcSlipRateAndTraction 2 exampleStresses exampleTractions (\<lambda>p. 5) 0 0 exampleLaw))
        0 1"
  using calcSlipRateAndTraction_slipRateMagnitude
          [of 1 2 exampleStresses exampleTractions "\<lambda>p. 5" 0 0 exampleLaw]
  by (simp add: exampleLaw_def exampleStresses_def magnitude_zero_right)

lemma calcSlipRateAndTraction_Suc:
  "calcSlipRateAndTraction (Suc n) fs tr strength t f s =
     calcSlipRateAndTraction_point fs strength t f n (calcSlipRateAndTraction n fs tr strength t f s)"
  by (simp add: calcSlipRateAndTraction_def)

lemma predictedSlipRateMagnitude_nonneg: "0 \<le> predictedSlipRateMagnitude s fs strength t f p"
  by (simp add: predictedSlipRateMagnitude_def)

lemma predictedDivisor_pos:
  assumes "0 < strength p" "0 < etaS (impAndEta s f)"
  shows "0 < predictedDivisor s fs strength t f p"
proof -
  have "0 \<le> etaS (impAndEta s f) * predictedSlipRateMagnitude s fs strength t f p"
    using assms(2) predictedSlipRateMagnitude_nonneg by (simp add: mult_nonneg_nonneg)
  with assms(1) show ?thesis
    by (simp add: predictedDivisor_def add_pos_nonneg)
qed

lemma divisor_in_iteration:
  "divisor (assignSlipRateMagnitude fs strength t f p
              (snd (calcSlipRateAndTraction p fs tr strength t f s))) strength f p
     = predictedDivisor s fs strength t f p"
  by (simp add: divisor_def assignSlipRateMagnitude_def Let_def upd2_same after_inputs
        predictedDivisor_def predictedSlipRateMagnitude_def totalTraction1_def totalTraction2_def)

text \<open>
  Claim C7. Where the strength of a point and the shear impedance \<open>etaS\<close> of the face are
  strictly positive, the divisor \<open>strength + etaS * slipRateMagnitude\<close> of
  \<open>calcSlipRateAndTraction\<close> is strictly positive: in the iteration of the point, where it
  is read right after the slip-rate magnitude is assigned (the loop enters iteration
  \<open>pointIndex\<close> in the state the first \<open>pointIndex\<close> iterations leave, lemma
  \<open>calcSlipRateAndTraction_Suc\<close>), and in the state the whole loop leaves. So neither
  division of the iteration divides by zero.
\<close>

theorem calcSlipRateAndTraction_divisor_positive:
  assumes "pointIndex < numPaddedPoints"
    and "0 < strength pointIndex"
    and "0 < etaS (impAndEta s ltsFace)"
  shows "0 < divisor
               (assignSlipRateMagnitude fs strength timeIndex ltsFace pointIndex
                  (snd (calcSlipRateAndTraction pointIndex fs tr strength timeIndex ltsFace s)))
               strength ltsFace pointIndex
       \<and> 0 < divisor
               (snd (calcSlipRateAndTraction numPaddedPoints fs tr strength timeIndex ltsFace s))
               strength ltsFace pointIndex"
  using assms
  by (simp add: divisor_in_iteration after_divisor predictedDivisor_pos)

theorem calcSlipRateAndTraction_divisor_positive_witness:
  "(1::nat) < 2 \<and> (0::real) < 5 \<and> 0 < etaS (impAndEta exampleLaw 0)
   \<and> divisor
        (assignSlipRateMagnitude exampleStresses (\<lambda>p. 5) 0 0 1
           (snd (calcSlipRateAndTraction 1 exampleStresses exampleTractions (\<lambda>p. 5) 0 0 exampleLaw)))
        (\<lambda>p. 5) 0 1 = 8
   \<and> 0 < divisor
        (assignSlipRateMagnitude exampleStresses (\<lambda>p. 5) 0 0 1
           (snd (calcSlipRateAndTraction 1 exampleStresses exampleTractions (\<lambda>p. 5) 0 0 exampleLaw)))
        (\<lambda>p. 5) 0 1
   \<and> 0 < divisor
        (snd (calcSlipRateAndTraction 2 exampleStresses exampleTractions (\<lambda>p. 5) 0 0 exampleLaw))
        (\<lambda>p. 5) 0 1"
  using calcSlipRateAndTraction_divisor_positive
          [of 1 2 "\<lambda>p. 5" exampleLaw 0 exampleStresses 0 exampleTractions]
  by (simp add: divisor_in_iteration predictedDivisor_def predictedSlipRateMagnitude_def
        totalTraction1_def totalTraction2_def exampleLaw_def exampleStresses_def
        magnitude_zero_right)





lemma reduced_traction:
  fixes T e m st d :: real
  assumes "d = st + e * m" "d \<noteq> 0"
  shows "T - e * (m * T / d) = T * (st / d)"
  using assms by (simp add: field_simps)

lemma final_tractions:
  assumes "p < n" "predictedDivisor s fs strength t f p \<noteq> 0"
  shows "initialStressInFaultCS s f p 3
           + tr_traction1 (fst (calcSlipRateAndTraction n fs tr strength t f s)) t p
         = totalTraction1 s fs t f p * (strength p / predictedDivisor s fs strength t f p)"
    and "initialStressInFaultCS s f p 5
           + tr_traction2 (fst (calcSlipRateAndTraction n fs tr strength t f s)) t p
         = totalTraction2 s fs t f p * (strength p / predictedDivisor s fs strength t f p)"
proof -
  have d: "predictedDivisor s fs strength t f p
             = strength p + etaS (impAndEta s f) * predictedSlipRateMagnitude s fs strength t f p"
    by (simp add: predictedDivisor_def)
  have "totalTraction1 s fs t f p - etaS (impAndEta s f) * predictedSlipRate1 s fs strength t f p
          = totalTraction1 s fs t f p * (strength p / predictedDivisor s fs strength t f p)"
    unfolding predictedSlipRate1_def by (rule reduced_traction [OF d assms(2)])
  then show "initialStressInFaultCS s f p 3
           + tr_traction1 (fst (calcSlipRateAndTraction n fs tr strength t f s)) t p
         = totalTraction1 s fs t f p * (strength p / predictedDivisor s fs strength t f p)"
    using assms(1) by (simp add: after_tr_traction1 totalTraction1_def)
  have "totalTraction2 s fs t f p - etaS (impAndEta s f) * predictedSlipRate2 s fs strength t f p
          = totalTraction2 s fs t f p * (strength p / predictedDivisor s fs strength t f p)"
    unfolding predictedSlipRate2_def by (rule reduced_traction [OF d assms(2)])
  then show "initialStressInFaultCS s f p 5
           + tr_traction2 (fst (calcSlipRateAndTraction n fs tr strength t f s)) t p
         = totalTraction2 s fs t f p * (strength p / predictedDivisor s fs strength t f p)"
    using assms(1) by (simp add: after_tr_traction2 totalTraction2_def)
qed

lemma above_strength_point:
  assumes "0 < strength p"
    and "strength p \<le> magnitude (totalTraction1 s fs t f p) (totalTraction2 s fs t f p)"
    and "0 < etaS (impAndEta s f)"
    and "invEtaS (impAndEta s f) = 1 / etaS (impAndEta s f)"
  shows "predictedSlipRateMagnitude s fs strength t f p
           = (magnitude (totalTraction1 s fs t f p) (totalTraction2 s fs t f p) - strength p)
             * invEtaS (impAndEta s f)"
    and "predictedDivisor s fs strength t f p
           = magnitude (totalTraction1 s fs t f p) (totalTraction2 s fs t f p)"
proof -
  let ?m = "magnitude (totalTraction1 s fs t f p) (totalTraction2 s fs t f p)"
  have "0 \<le> (?m - strength p) * invEtaS (impAndEta s f)"
    using assms(2,3,4) by simp
  then show v: "predictedSlipRateMagnitude s fs strength t f p
                  = (?m - strength p) * invEtaS (impAndEta s f)"
    by (simp add: predictedSlipRateMagnitude_def)
  show "predictedDivisor s fs strength t f p = ?m"
    using assms(3) by (simp add: predictedDivisor_def v assms(4))
qed

text \<open>
  Claim C4. On a face with \<open>etaS\<close> strictly positive, as the specification takes it, and
  \<open>invEtaS = 1 / etaS\<close>: at a point with strength 5 and predicted total traction \<open>(8, 0)\<close>,
  \<open>calcSlipRateAndTraction\<close> leaves the slip-rate magnitude \<open>(8 - 5) * invEtaS\<close> and a final
  total traction (initial plus result) \<open>(5, 0)\<close>, of magnitude the strength. In general, at
  every point of positive strength both components of the final total traction are the
  predicted ones multiplied by the same factor \<open>strength / divisor\<close>, with the positive
  divisor \<open>strength + etaS * slipRateMagnitude\<close>, so the direction is kept; and where the
  predicted magnitude reaches the strength, the slip-rate magnitude is
  \<open>(|T| - strength) * invEtaS\<close>, the divisor is \<open>|T|\<close> and the final magnitude is the
  strength.
\<close>

theorem calcSlipRateAndTraction_clips_to_strength:
  assumes "calcSlipRateAndTraction numPaddedPoints fs tr strength timeIndex ltsFace s = (tr', s')"
    and "pointIndex < numPaddedPoints"
    and "0 < etaS (impAndEta s ltsFace)"
    and "invEtaS (impAndEta s ltsFace) = 1 / etaS (impAndEta s ltsFace)"
    and "predicted1 = totalTraction1 s fs timeIndex ltsFace pointIndex"
    and "predicted2 = totalTraction2 s fs timeIndex ltsFace pointIndex"
    and "final1 = initialStressInFaultCS s ltsFace pointIndex 3 + tr_traction1 tr' timeIndex pointIndex"
    and "final2 = initialStressInFaultCS s ltsFace pointIndex 5 + tr_traction2 tr' timeIndex pointIndex"
  shows "(strength pointIndex = 5 \<and> predicted1 = 8 \<and> predicted2 = 0 \<longrightarrow>
            slipRateMagnitude s' ltsFace pointIndex = (8 - 5) * invEtaS (impAndEta s ltsFace)
            \<and> divisor s' strength ltsFace pointIndex = 8
            \<and> final1 = 5 \<and> final2 = 0
            \<and> magnitude final1 final2 = 5)
       \<and> (0 < strength pointIndex \<longrightarrow>
            0 < divisor s' strength ltsFace pointIndex
            \<and> final1 = predicted1 * (strength pointIndex / divisor s' strength ltsFace pointIndex)
            \<and> final2 = predicted2 * (strength pointIndex / divisor s' strength ltsFace pointIndex))
       \<and> (0 < strength pointIndex \<and> strength pointIndex \<le> magnitude predicted1 predicted2 \<longrightarrow>
            slipRateMagnitude s' ltsFace pointIndex
              = (magnitude predicted1 predicted2 - strength pointIndex) * invEtaS (impAndEta s ltsFace)
            \<and> divisor s' strength ltsFace pointIndex = magnitude predicted1 predicted2
            \<and> magnitude final1 final2 = strength pointIndex)"
proof -
  let ?d = "predictedDivisor s fs strength timeIndex ltsFace pointIndex"
  let ?m = "magnitude predicted1 predicted2"
  have r: "tr' = fst (calcSlipRateAndTraction numPaddedPoints fs tr strength timeIndex ltsFace s)"
          "s' = snd (calcSlipRateAndTraction numPaddedPoints fs tr strength timeIndex ltsFace s)"
    by (simp_all add: assms(1))
  have dv: "divisor s' strength ltsFace pointIndex = ?d"
    unfolding r using assms(2) by (simp add: after_divisor)
  have sm: "slipRateMagnitude s' ltsFace pointIndex
              = predictedSlipRateMagnitude s fs strength timeIndex ltsFace pointIndex"
    unfolding r using assms(2) by (simp add: after_slipRateMagnitude)
  have scaled: "0 < ?d \<and> final1 = predicted1 * (strength pointIndex / ?d)
                \<and> final2 = predicted2 * (strength pointIndex / ?d)"
    if st: "0 < strength pointIndex"
  proof -
    have pos: "0 < ?d"
      using predictedDivisor_pos [where strength = strength and p = pointIndex, OF st assms(3)] .
    then have nz: "?d \<noteq> 0"
      by simp
    show ?thesis
      unfolding assms(5,6,7,8) r
      using pos final_tractions [OF assms(2) nz, of tr] by simp
  qed
  have clip: "slipRateMagnitude s' ltsFace pointIndex
                = (?m - strength pointIndex) * invEtaS (impAndEta s ltsFace)
              \<and> ?d = ?m \<and> magnitude final1 final2 = strength pointIndex"
    if st: "0 < strength pointIndex" and ab: "strength pointIndex \<le> ?m"
  proof -
    have ab': "strength pointIndex
                 \<le> magnitude (totalTraction1 s fs timeIndex ltsFace pointIndex)
                              (totalTraction2 s fs timeIndex ltsFace pointIndex)"
      using ab by (simp add: assms(5,6))
    note a = above_strength_point [where strength = strength and p = pointIndex, OF st ab' assms(3,4)]
    have d: "?d = ?m"
      by (simp add: a(2) assms(5,6))
    have mp: "0 < ?m"
      using st ab by linarith
    have f: "final1 = predicted1 * (strength pointIndex / ?m)"
            "final2 = predicted2 * (strength pointIndex / ?m)"
      using scaled [OF st] by (simp_all add: d)
    have "magnitude final1 final2 = \<bar>strength pointIndex / ?m\<bar> * ?m"
      unfolding f by (rule magnitude_scale)
    also have "\<dots> = strength pointIndex"
      using st mp by simp
    finally show ?thesis
      by (simp add: sm a(1) d assms(5,6))
  qed
  have scen: "slipRateMagnitude s' ltsFace pointIndex = (8 - 5) * invEtaS (impAndEta s ltsFace)
            \<and> divisor s' strength ltsFace pointIndex = 8
            \<and> final1 = 5 \<and> final2 = 0
            \<and> magnitude final1 final2 = 5"
    if h: "strength pointIndex = 5" "predicted1 = 8" "predicted2 = 0"
  proof -
    have st: "0 < strength pointIndex" and ab: "strength pointIndex \<le> ?m"
      by (simp_all add: h magnitude_zero_right)
    have d8: "?d = 8"
      using clip [OF st ab] by (simp add: h magnitude_zero_right)
    show ?thesis
      using clip [OF st ab] scaled [OF st]
      by (simp add: dv d8 h magnitude_zero_right)
  qed
  have scaled': "0 < divisor s' strength ltsFace pointIndex
            \<and> final1 = predicted1 * (strength pointIndex / divisor s' strength ltsFace pointIndex)
            \<and> final2 = predicted2 * (strength pointIndex / divisor s' strength ltsFace pointIndex)"
    if "0 < strength pointIndex"
    unfolding dv using scaled [OF that] .
  have clip': "slipRateMagnitude s' ltsFace pointIndex
              = (magnitude predicted1 predicted2 - strength pointIndex) * invEtaS (impAndEta s ltsFace)
            \<and> divisor s' strength ltsFace pointIndex = magnitude predicted1 predicted2
            \<and> magnitude final1 final2 = strength pointIndex"
    if "0 < strength pointIndex" "strength pointIndex \<le> magnitude predicted1 predicted2"
    unfolding dv using clip [OF that] .
  show ?thesis
    using scen scaled' clip' by blast
qed

theorem calcSlipRateAndTraction_clips_to_strength_witness:
  "(0::nat) < 2
   \<and> 0 < etaS (impAndEta exampleLaw 0)
   \<and> invEtaS (impAndEta exampleLaw 0) = 1 / etaS (impAndEta exampleLaw 0)
   \<and> totalTraction1 exampleLaw exampleStresses 0 0 0 = 8
   \<and> totalTraction2 exampleLaw exampleStresses 0 0 0 = 0
   \<and> slipRateMagnitude
        (snd (calcSlipRateAndTraction 2 exampleStresses exampleTractions (\<lambda>p. 5) 0 0 exampleLaw))
        0 0 = 3 / 2
   \<and> initialStressInFaultCS exampleLaw 0 0 3
        + tr_traction1
            (fst (calcSlipRateAndTraction 2 exampleStresses exampleTractions (\<lambda>p. 5) 0 0 exampleLaw))
            0 0 = 5
   \<and> initialStressInFaultCS exampleLaw 0 0 5
        + tr_traction2
            (fst (calcSlipRateAndTraction 2 exampleStresses exampleTractions (\<lambda>p. 5) 0 0 exampleLaw))
            0 0 = 0
   \<and> totalTraction1 exampleLaw obliqueStresses 0 0 0 = 6
   \<and> totalTraction2 exampleLaw obliqueStresses 0 0 0 = 8
   \<and> slipRateMagnitude
        (snd (calcSlipRateAndTraction 2 obliqueStresses exampleTractions (\<lambda>p. 5) 0 0 exampleLaw))
        0 0 = 5 / 2
   \<and> initialStressInFaultCS exampleLaw 0 0 3
        + tr_traction1
            (fst (calcSlipRateAndTraction 2 obliqueStresses exampleTractions (\<lambda>p. 5) 0 0 exampleLaw))
            0 0 = 3
   \<and> initialStressInFaultCS exampleLaw 0 0 5
        + tr_traction2
            (fst (calcSlipRateAndTraction 2 obliqueStresses exampleTractions (\<lambda>p. 5) 0 0 exampleLaw))
            0 0 = 4"
proof -
  let ?r = "calcSlipRateAndTraction 2 exampleStresses exampleTractions (\<lambda>p. 5) 0 0 exampleLaw"
  let ?q = "calcSlipRateAndTraction 2 obliqueStresses exampleTractions (\<lambda>p. 5) 0 0 exampleLaw"
  have h: "(0::nat) < 2"
    "0 < etaS (impAndEta exampleLaw 0)"
    "invEtaS (impAndEta exampleLaw 0) = 1 / etaS (impAndEta exampleLaw 0)"
    by (simp_all add: exampleLaw_def)
  have t: "totalTraction1 exampleLaw exampleStresses 0 0 0 = 8"
    "totalTraction2 exampleLaw exampleStresses 0 0 0 = 0"
    "totalTraction1 exampleLaw obliqueStresses 0 0 0 = 6"
    "totalTraction2 exampleLaw obliqueStresses 0 0 0 = 8"
    by (simp_all add: totalTraction1_def totalTraction2_def exampleLaw_def exampleStresses_def
          obliqueStresses_def)
  have r: "?r = (fst ?r, snd ?r)" and q: "?q = (fst ?q, snd ?q)"
    by simp_all
  note a = calcSlipRateAndTraction_clips_to_strength [OF r h refl refl refl refl]
  note b = calcSlipRateAndTraction_clips_to_strength [OF q h refl refl refl refl]
  have a': "slipRateMagnitude (snd ?r) 0 0 = 3 / 2
            \<and> initialStressInFaultCS exampleLaw 0 0 3 + tr_traction1 (fst ?r) 0 0 = 5
            \<and> initialStressInFaultCS exampleLaw 0 0 5 + tr_traction2 (fst ?r) 0 0 = 0"
    using a by (simp add: t) (simp add: exampleLaw_def)
  have b': "slipRateMagnitude (snd ?q) 0 0 = 5 / 2
            \<and> initialStressInFaultCS exampleLaw 0 0 3 + tr_traction1 (fst ?q) 0 0 = 3
            \<and> initialStressInFaultCS exampleLaw 0 0 5 + tr_traction2 (fst ?q) 0 0 = 4"
    using b by (simp add: t magnitude_6_8) (simp add: exampleLaw_def)
  show ?thesis
    using h t a' b' by simp
qed

section \<open>The strength stage, verified\<close>

lemma calcStrengthHook_point_identity:
  assumes "strengthHook sp = strengthHook NoSpecialization"
  shows "calcStrengthHook_point sp fs t f p (strength, s)
           = (strength(p := strengthFormula s fs t f p), s)"
  by (simp add: calcStrengthHook_point_def assms NoSpecialization_def Let_def upd2_triv
        strengthFormula_def)

lemma calcStrengthHook_identity:
  assumes "strengthHook sp = strengthHook NoSpecialization"
  shows "calcStrengthHook n sp fs strength t f s
           = ((\<lambda>q. if q < n then strengthFormula s fs t f q else strength q), s)"
  unfolding calcStrengthHook_def
  by (induction n) (simp_all add: calcStrengthHook_point_identity [OF assms] fun_upd_extend)

lemma calcStrengthHook_point_accumulatedSlip:
  "accumulatedSlipMagnitude (snd (calcStrengthHook_point sp fs t f p ss))
     = accumulatedSlipMagnitude (snd ss)"
  by (simp add: calcStrengthHook_point_def Let_def split: prod.splits)

lemma calcStrengthHook_accumulatedSlip:
  "accumulatedSlipMagnitude (snd (calcStrengthHook n sp fs strength t f s))
     = accumulatedSlipMagnitude s"
  unfolding calcStrengthHook_def
  using fold_preserves [where h = "\<lambda>ss. accumulatedSlipMagnitude (snd ss)"
          and g = "calcStrengthHook_point sp fs t f", OF calcStrengthHook_point_accumulatedSlip]
  by simp

text \<open>
  Claim C2, amended. For every point below the padded point count, the strength stage
  with an empty strength hook (\<open>NoSpecialization\<close>; \<open>ForcedRuptureTime\<close> has the same empty
  body) computes \<open>strength = -cohesion - mu * min(totalNormalStress, 0)\<close>, where
  \<open>totalNormalStress\<close> is the initial fault-normal stress plus the kernel-computed normal
  stress. Under compression (\<open>totalNormalStress \<le> 0\<close>) the strength is non-negative when
  the cohesion is not positive and the friction coefficient is not negative; under
  tension or zero normal stress the strength is \<open>-cohesion\<close>. The sign conditions are
  needed: the counterexample has a positive cohesion.
\<close>

theorem calcStrengthHook_strength:
  assumes "strengthHook sp = strengthHook NoSpecialization"
    and "calcStrengthHook numPaddedPoints sp fs strength timeIndex ltsFace s = (strength', s')"
    and "pointIndex < numPaddedPoints"
    and "totalNormalStress = initialStressInFaultCS s ltsFace pointIndex 0
                             + normalStress fs timeIndex pointIndex"
  shows "strength' pointIndex
           = - cohesion s ltsFace pointIndex - mu s ltsFace pointIndex * min totalNormalStress 0
       \<and> (totalNormalStress \<le> 0 \<and> cohesion s ltsFace pointIndex \<le> 0 \<and> 0 \<le> mu s ltsFace pointIndex
            \<longrightarrow> 0 \<le> strength' pointIndex)
       \<and> (0 \<le> totalNormalStress \<longrightarrow> strength' pointIndex = - cohesion s ltsFace pointIndex)"
proof -
  have v: "strength' pointIndex
             = - cohesion s ltsFace pointIndex - mu s ltsFace pointIndex * min totalNormalStress 0"
  proof -
    have "strength' = fst (calcStrengthHook numPaddedPoints sp fs strength timeIndex ltsFace s)"
      by (simp add: assms(2))
    then show ?thesis
      using assms(3)
      by (simp add: calcStrengthHook_identity [OF assms(1)] strengthFormula_def assms(4))
  qed
  have "0 \<le> strength' pointIndex"
    if "totalNormalStress \<le> 0" "cohesion s ltsFace pointIndex \<le> 0" "0 \<le> mu s ltsFace pointIndex"
  proof -
    have "mu s ltsFace pointIndex * totalNormalStress \<le> 0"
      using that by (simp add: mult_nonneg_nonpos)
    then show ?thesis
      using that by (simp add: v min_def)
  qed
  moreover have "strength' pointIndex = - cohesion s ltsFace pointIndex" if "0 \<le> totalNormalStress"
    using that by (simp add: v min_def)
  ultimately show ?thesis
    using v by blast
qed

theorem calcStrengthHook_strength_witness:
  "(1::nat) < 2
   \<and> initialStressInFaultCS exampleLaw 0 1 0 + normalStress exampleStresses 0 1 = - 10
   \<and> cohesion exampleLaw 0 1 \<le> 0 \<and> 0 \<le> mu exampleLaw 0 1
   \<and> fst (calcStrengthHook 2 NoSpecialization exampleStresses (\<lambda>p. 0) 0 0 exampleLaw) 1 = 6
   \<and> 0 \<le> fst (calcStrengthHook 2 NoSpecialization exampleStresses (\<lambda>p. 0) 0 0 exampleLaw) 1"
proof -
  let ?r = "calcStrengthHook 2 NoSpecialization exampleStresses (\<lambda>p. 0) 0 0 exampleLaw"
  have h: "strengthHook NoSpecialization = strengthHook NoSpecialization"
    "?r = (fst ?r, snd ?r)" "(1::nat) < 2"
    by simp_all
  show ?thesis
    using calcStrengthHook_strength [OF h refl]
    by (simp add: exampleLaw_def exampleStresses_def)
qed

theorem calcStrengthHook_strength_counterexample:
  "initialStressInFaultCS positiveCohesionLaw 0 0 0 + normalStress exampleStresses 0 0 \<le> 0
   \<and> fst (calcStrengthHook 1 NoSpecialization exampleStresses (\<lambda>p. 0) 0 0 positiveCohesionLaw) 0
       = - 5"
  by (simp add: calcStrengthHook_identity strengthFormula_def positiveCohesionLaw_def
        exampleLaw_def exampleStresses_def)

section \<open>The state-variable stage and the accumulated slip, verified\<close>

lemma calcStateVariableHook_point_eq:
  "calcStateVariableHook_point r t f p (sv, s) =
     (sv(p := min (\<bar>integratedSlip s r t f p\<bar> / dC s f p) 1),
      s\<lparr>accumulatedSlipMagnitude :=
           upd2 (accumulatedSlipMagnitude s) f p (integratedSlip s r t f p)\<rparr>)"
  by (simp add: calcStateVariableHook_point_def Let_def upd2_same integratedSlip_def)

lemma stateVariable_step:
  "calcStateVariableHook_point r t f n (stateVariable_upto n r sv t f s)
     = stateVariable_upto (Suc n) r sv t f s"
  unfolding stateVariable_upto_def calcStateVariableHook_point_eq
  by (simp add: integratedSlip_def upd2_extend fun_upd_extend)

lemma stateVariable_loop:
  "fold (calcStateVariableHook_point r t f) [0..<n] (sv, s) = stateVariable_upto n r sv t f s"
proof (induction n)
  case 0
  show ?case by (simp add: stateVariable_upto_def)
next
  case (Suc n)
  then show ?case by (simp add: stateVariable_step)
qed

lemma calcStateVariableHook_closed:
  "calcStateVariableHook n resample sp sv t f s =
     (stateVariableHook sp
        (fst (stateVariable_upto n (resampleKrnl_execute n resample (slipRateMagnitude s f)) sv t f s))
        (mFullUpdateTime s + deltaT s t) f,
      snd (stateVariable_upto n (resampleKrnl_execute n resample (slipRateMagnitude s f)) sv t f s))"
  by (simp add: calcStateVariableHook_def Let_def stateVariable_loop)
     (simp add: stateVariable_upto_def)

lemma after_accumulatedSlipMagnitude:
  "accumulatedSlipMagnitude (snd (calcStateVariableHook n resample sp sv t f s)) f' p =
     (if f' = f \<and> p < n
      then integratedSlip s (resampleKrnl_execute n resample (slipRateMagnitude s f)) t f p
      else accumulatedSlipMagnitude s f' p)"
  by (simp add: calcStateVariableHook_closed stateVariable_upto_def)

lemma after_dC: "dC (snd (calcStateVariableHook n resample sp sv t f s)) = dC s"
  by (simp add: calcStateVariableHook_closed stateVariable_upto_def)

lemma after_stateVariable:
  assumes "stateVariableHook sp = stateVariableHook NoSpecialization" "p < n"
  shows "fst (calcStateVariableHook n resample sp sv t f s) p =
           min (\<bar>integratedSlip s (resampleKrnl_execute n resample (slipRateMagnitude s f)) t f p\<bar>
                / dC s f p) 1"
  using assms(2)
  by (simp add: calcStateVariableHook_closed stateVariable_upto_def assms(1) NoSpecialization_def)

lemma resampleKrnl_execute_two:
  "resampleKrnl_execute 2 resample q i = resample i 0 * q 0 + resample i 1 * q 1"
  by (simp add: resampleKrnl_execute_def numeral_2_eq_2)


text \<open>
  Claim C5. For every point below the padded point count, after the state-variable stage
  of a specialization whose state-variable hook is the identity (the one of
  \<open>NoSpecialization\<close>), the state variable is
  \<open>min(|accumulatedSlipMagnitude| / criticalSlipDistance, 1)\<close>, the accumulated slip being
  the one the stage has just integrated; where the critical slip distance is positive,
  the state variable lies in \<open>[0, 1]\<close>.
\<close>

theorem calcStateVariableHook_stateVariable:
  assumes "stateVariableHook sp = stateVariableHook NoSpecialization"
    and "calcStateVariableHook numPaddedPoints resample sp stateVariable timeIndex ltsFace s
           = (stateVariable', s')"
    and "pointIndex < numPaddedPoints"
  shows "stateVariable' pointIndex
           = min (\<bar>accumulatedSlipMagnitude s' ltsFace pointIndex\<bar> / dC s' ltsFace pointIndex) 1
       \<and> (0 < dC s' ltsFace pointIndex
            \<longrightarrow> 0 \<le> stateVariable' pointIndex \<and> stateVariable' pointIndex \<le> 1)"
proof -
  have r: "stateVariable' = fst (calcStateVariableHook numPaddedPoints resample sp stateVariable
                                   timeIndex ltsFace s)"
          "s' = snd (calcStateVariableHook numPaddedPoints resample sp stateVariable
                       timeIndex ltsFace s)"
    by (simp_all add: assms(2))
  have v: "stateVariable' pointIndex
           = min (\<bar>accumulatedSlipMagnitude s' ltsFace pointIndex\<bar> / dC s' ltsFace pointIndex) 1"
    unfolding r using assms(3)
    by (simp add: after_accumulatedSlipMagnitude after_dC after_stateVariable [OF assms(1,3)])
  have "0 \<le> stateVariable' pointIndex \<and> stateVariable' pointIndex \<le> 1"
    if "0 < dC s' ltsFace pointIndex"
    using that by (simp add: v)
  with v show ?thesis
    by blast
qed

theorem calcStateVariableHook_stateVariable_witness:
  "(1::nat) < 2
   \<and> 0 < dC (snd (calcStateVariableHook 2 identityResample NoSpecialization (\<lambda>p. 0) 0 0 slippingLaw)) 0 1
   \<and> fst (calcStateVariableHook 2 identityResample NoSpecialization (\<lambda>p. 0) 0 0 slippingLaw) 1 = 1
   \<and> fst (calcStateVariableHook 2 identityResample NoSpecialization (\<lambda>p. 0) 0 0 slippingLaw) 0
       = 1 / 2"
proof -
  let ?r = "calcStateVariableHook 2 identityResample NoSpecialization (\<lambda>p. 0) 0 0 slippingLaw"
  have h: "stateVariableHook NoSpecialization = stateVariableHook NoSpecialization"
    "?r = (fst ?r, snd ?r)"
    by simp_all
  show ?thesis
    using calcStateVariableHook_stateVariable [OF h, of 1]
      calcStateVariableHook_stateVariable [OF h, of 0]
    by (simp add: after_accumulatedSlipMagnitude after_dC integratedSlip_def
          resampleKrnl_execute_two identityResample_def slippingLaw_def exampleLaw_def)
qed

lemma frictionFunctionHook_accumulatedSlip:
  "accumulatedSlipMagnitude (frictionFunctionHook n sv f s) = accumulatedSlipMagnitude s"
  unfolding frictionFunctionHook_def
  by (rule fold_preserves) simp





lemma updateFrictionAndSlip_accumulatedSlip:
  "accumulatedSlipMagnitude
     (snd (snd (snd (updateFrictionAndSlip n resample sp fs tr sv strength f t s)))) f' p =
     (let ss = calcStrengthHook n sp fs strength t f s;
          s2 = snd (calcSlipRateAndTraction n fs tr (fst ss) t f (snd ss))
      in if f' = f \<and> p < n
         then accumulatedSlipMagnitude s f p
              + resampleKrnl_execute n resample (slipRateMagnitude s2 f) p * deltaT s2 t
         else accumulatedSlipMagnitude s f' p)"
  by (simp add: updateFrictionAndSlip_def Let_def frictionFunctionHook_accumulatedSlip
        after_accumulatedSlipMagnitude integratedSlip_def after_inputs
        calcStrengthHook_accumulatedSlip)




section \<open>The average slip, verified\<close>

lemma sum_loop: "fold (\<lambda>p acc. acc + tmpSlip p) [0..<n] a = a + (\<Sum>p<n. tmpSlip p)"
  by (induction n) (simp_all add: add.assoc)

lemma saveAverageSlipOutput_eq:
  "saveAverageSlipOutput nb tmpSlip averagedSlip = averagedSlip + (\<Sum>p<nb. tmpSlip p) / real nb"
  by (simp add: saveAverageSlipOutput_def sum_loop)

text \<open>
  Claim C9. Each call of \<open>saveAverageSlipOutput\<close> adds to the \<open>averagedSlip\<close> accumulator the
  sum of \<open>tmpSlip\<close> over the first \<open>numberOfBoundaryGaussPoints\<close> entries divided by that
  number (a positive compile-time constant); the entries of the padded tail do not
  matter; with \<open>tmpSlip\<close> summing to 4 over 4 boundary points the accumulator grows by 1.
\<close>

theorem saveAverageSlipOutput_mean:
  assumes "0 < numberOfBoundaryGaussPoints"
  shows "saveAverageSlipOutput numberOfBoundaryGaussPoints tmpSlip averagedSlip
           = averagedSlip
             + (\<Sum>p<numberOfBoundaryGaussPoints. tmpSlip p) / real numberOfBoundaryGaussPoints
       \<and> ((\<forall>p<numberOfBoundaryGaussPoints. tmpSlip' p = tmpSlip p)
            \<longrightarrow> saveAverageSlipOutput numberOfBoundaryGaussPoints tmpSlip' averagedSlip
                = saveAverageSlipOutput numberOfBoundaryGaussPoints tmpSlip averagedSlip)
       \<and> (numberOfBoundaryGaussPoints = 4 \<and> (\<Sum>p<numberOfBoundaryGaussPoints. tmpSlip p) = 4
            \<longrightarrow> saveAverageSlipOutput numberOfBoundaryGaussPoints tmpSlip averagedSlip
                = averagedSlip + 1)"
  by (auto simp: saveAverageSlipOutput_eq)

theorem saveAverageSlipOutput_mean_witness:
  "(0::nat) < 4 \<and> (\<Sum>p<4. paddedSlip p) = 4 \<and> paddedSlip 4 = 100
   \<and> saveAverageSlipOutput 4 paddedSlip (5 / 2) = 7 / 2
   \<and> saveAverageSlipOutput 4 (\<lambda>p. 1) (5 / 2) = saveAverageSlipOutput 4 paddedSlip (5 / 2)"
proof -
  have h: "(0::nat) < 4" by simp
  have s: "(\<Sum>p<4. paddedSlip p) = 4"
    by (simp add: paddedSlip_def lessThan_nat_numeral lessThan_Suc)
  have t: "\<forall>p<4. (\<lambda>p. 1) p = paddedSlip p"
    by (simp add: paddedSlip_def)
  show ?thesis
    using saveAverageSlipOutput_mean [OF h, of paddedSlip "5 / 2" "\<lambda>p. 1"] s t
    by (simp add: paddedSlip_def)
qed

section \<open>The imposed state, verified\<close>

lemma zero_loop:
  assumes "n \<le> length a" "n \<le> length b"
  shows "fold (\<lambda>i pm. ((fst pm)[i := 0::real], (snd pm)[i := 0::real])) [0..<n] (a, b)
           = (replicate n 0 @ drop n a, replicate n 0 @ drop n b)"
  using assms
proof (induction n)
  case 0
  show ?case by simp
next
  case (Suc n)
  have "(replicate n 0 @ drop n xs)[n := 0] = replicate (Suc n) (0::real) @ drop (Suc n) xs"
    if "Suc n \<le> length xs" for xs :: "real list"
  proof -
    have "drop n xs = xs ! n # drop (Suc n) xs"
      using that by (simp add: Cons_nth_drop_Suc)
    then show ?thesis
      by (simp add: list_update_append replicate_append_same)
  qed
  with Suc show ?case
    by simp
qed

lemma zero_loop_full:
  assumes "length a = n" "length b = n"
  shows "fold (\<lambda>i pm. ((fst pm)[i := 0::real], (snd pm)[i := 0::real])) [0..<n] (a, b)
           = (replicate n 0, replicate n 0)"
  using zero_loop [of n a b] assms by simp

text \<open>
  Claim C10. The two buffers \<open>postcomputeImposedStateFromNewStress\<close> returns do not depend
  on what the buffers held at the call: the first loop sets every entry of both to zero
  before any kernel runs, so two calls that differ only in the prior contents of the
  buffers (each of \<open>tensor::QInterpolated::size()\<close> entries) return the same, namely what
  a call on zeroed buffers returns. This holds for any pair of kernels.
\<close>

theorem postcomputeImposedStateFromNewStress_ignores_prior_contents:
  assumes "length imposedStatePlus = qInterpolatedSize"
    and "length imposedStateMinus = qInterpolatedSize"
    and "length imposedStatePlus' = qInterpolatedSize"
    and "length imposedStateMinus' = qInterpolatedSize"
  shows "postcomputeImposedStateFromNewStress convergenceOrder numPaddedPoints qInterpolatedSize
           krnlM krnlP fs tr impedanceMatrices imposedStatePlus imposedStateMinus
           qInterpolatedPlus qInterpolatedMinus timeWeights
         = postcomputeImposedStateFromNewStress convergenceOrder numPaddedPoints qInterpolatedSize
             krnlM krnlP fs tr impedanceMatrices imposedStatePlus' imposedStateMinus'
             qInterpolatedPlus qInterpolatedMinus timeWeights
       \<and> postcomputeImposedStateFromNewStress convergenceOrder numPaddedPoints qInterpolatedSize
           krnlM krnlP fs tr impedanceMatrices imposedStatePlus imposedStateMinus
           qInterpolatedPlus qInterpolatedMinus timeWeights
         = postcomputeImposedStateFromNewStress convergenceOrder numPaddedPoints qInterpolatedSize
             krnlM krnlP fs tr impedanceMatrices
             (replicate qInterpolatedSize 0) (replicate qInterpolatedSize 0)
             qInterpolatedPlus qInterpolatedMinus timeWeights"
  unfolding postcomputeImposedStateFromNewStress_def
  by (simp add: zero_loop_full assms)

lemma copyTheta_one:
  "copyTheta 1 fs tr o_idx th 0 1 = tr_traction1 tr o_idx 0"
  by (simp add: copyTheta_def upd2_apply)

theorem postcomputeImposedStateFromNewStress_ignores_prior_contents_witness:
  "length [7, 8 :: real] = 2 \<and> length [9, 10 :: real] = 2
   \<and> length [1, 2 :: real] = 2 \<and> length [3, 4 :: real] = 2
   \<and> postcomputeImposedStateFromNewStress 2 1 2 accumulatingKernel accumulatingKernel
        exampleStresses unitTractions exampleImpedances [7, 8] [9, 10]
        (\<lambda>o_idx. []) (\<lambda>o_idx. []) (\<lambda>o_idx. 1 / 2)
      = postcomputeImposedStateFromNewStress 2 1 2 accumulatingKernel accumulatingKernel
          exampleStresses unitTractions exampleImpedances [1, 2] [3, 4]
          (\<lambda>o_idx. []) (\<lambda>o_idx. []) (\<lambda>o_idx. 1 / 2)
   \<and> postcomputeImposedStateFromNewStress 2 1 2 accumulatingKernel accumulatingKernel
        exampleStresses unitTractions exampleImpedances [7, 8] [9, 10]
        (\<lambda>o_idx. []) (\<lambda>o_idx. []) (\<lambda>o_idx. 1 / 2)
      = ([1, 1], [1, 1])"
proof -
  have h: "length [7, 8 :: real] = 2" "length [9, 10 :: real] = 2"
    "length [1, 2 :: real] = 2" "length [3, 4 :: real] = 2"
    by simp_all
  have v: "postcomputeImposedStateFromNewStress 2 1 2 accumulatingKernel accumulatingKernel
        exampleStresses unitTractions exampleImpedances (replicate 2 0) (replicate 2 0)
        (\<lambda>o_idx. []) (\<lambda>o_idx. []) (\<lambda>o_idx. 1 / 2) = ([1, 1], [1, 1])"
    by (simp add: postcomputeImposedStateFromNewStress_def zero_loop_full numeral_2_eq_2
          accumulatingKernel_def copyTheta_one [simplified] unitTractions_def Let_def)
  note t = postcomputeImposedStateFromNewStress_ignores_prior_contents [OF h,
        of 2 1 accumulatingKernel accumulatingKernel exampleStresses unitTractions
           exampleImpedances "\<lambda>o_idx. []" "\<lambda>o_idx. []" "\<lambda>o_idx. 1 / 2"]
  have a: "postcomputeImposedStateFromNewStress 2 1 2 accumulatingKernel accumulatingKernel
        exampleStresses unitTractions exampleImpedances [7, 8] [9, 10]
        (\<lambda>o_idx. []) (\<lambda>o_idx. []) (\<lambda>o_idx. 1 / 2) = ([1, 1], [1, 1])"
    by (simp only: conjunct2 [OF t] v)
  have b: "postcomputeImposedStateFromNewStress 2 1 2 accumulatingKernel accumulatingKernel
        exampleStresses unitTractions exampleImpedances [1, 2] [3, 4]
        (\<lambda>o_idx. []) (\<lambda>o_idx. []) (\<lambda>o_idx. 1 / 2) = ([1, 1], [1, 1])"
    by (simp only: conjunct1 [OF t, symmetric] a)
  show ?thesis
    unfolding a b by simp
qed

section \<open>The pending flags, verified\<close>

lemma saveRuptureFrontOutput_closed:
  "saveRuptureFrontOutput n pending time slipRates t =
     ((\<lambda>p. if p < n \<and> pending p \<and> ruptureFrontThreshold < slipRates p then False
            else pending p),
      (\<lambda>p. if p < n \<and> pending p \<and> ruptureFrontThreshold < slipRates p then t
            else time p))"
  unfolding saveRuptureFrontOutput_def
  by (induction n) (auto simp: fun_eq_iff less_Suc_eq)

lemma saveDynamicStressOutput_Suc:
  "saveDynamicStressOutput (Suc n) f s =
     (let h = saveDynamicStressOutput n f s
      in if dynStressTimePending h f n \<and> \<bar>accumulatedSlipMagnitude h f n\<bar> \<ge> dC h f n
         then h\<lparr>dynStressTime := upd2 (dynStressTime h) f n (mFullUpdateTime h),
                dynStressTimePending := upd2 (dynStressTimePending h) f n False\<rparr>
         else h)"
  by (simp add: saveDynamicStressOutput_def Let_def)

lemma saveDynamicStressOutput_frame:
  "accumulatedSlipMagnitude (saveDynamicStressOutput n f s) = accumulatedSlipMagnitude s"
  "dC (saveDynamicStressOutput n f s) = dC s"
  "mFullUpdateTime (saveDynamicStressOutput n f s) = mFullUpdateTime s"
  "ruptureTimePending (saveDynamicStressOutput n f s) = ruptureTimePending s"
  "ruptureTime (saveDynamicStressOutput n f s) = ruptureTime s"
  unfolding saveDynamicStressOutput_def
  by (rule fold_preserves, simp)+

lemma saveDynamicStressOutput_pending:
  "dynStressTimePending (saveDynamicStressOutput n f s) f' p =
     (if f' = f \<and> p < n \<and> dynStressTimePending s f p
         \<and> dC s f p \<le> \<bar>accumulatedSlipMagnitude s f p\<bar>
      then False else dynStressTimePending s f' p)"
proof (induction n)
  case 0
  show ?case by (simp add: saveDynamicStressOutput_def)
next
  case (Suc n)
  then show ?case
    by (auto simp: saveDynamicStressOutput_Suc Let_def saveDynamicStressOutput_frame
          upd2_apply less_Suc_eq)
qed

lemma saveDynamicStressOutput_time:
  "dynStressTime (saveDynamicStressOutput n f s) f' p =
     (if f' = f \<and> p < n \<and> dynStressTimePending s f p
         \<and> dC s f p \<le> \<bar>accumulatedSlipMagnitude s f p\<bar>
      then mFullUpdateTime s else dynStressTime s f' p)"
proof (induction n)
  case 0
  show ?case by (simp add: saveDynamicStressOutput_def)
next
  case (Suc n)
  then show ?case
    using saveDynamicStressOutput_pending [of n f s f p]
    by (auto simp: saveDynamicStressOutput_Suc Let_def saveDynamicStressOutput_frame
          upd2_apply less_Suc_eq)
qed

lemma call_keeps_ruptureTime:
  assumes "keepsDiagnostics c" "\<not> ruptureTimePending s f p"
  shows "\<not> ruptureTimePending (call n c s) f p \<and> ruptureTime (call n c s) f p = ruptureTime s f p"
proof (cases c)
  case (SaveRuptureFrontOutput f' slipRates t)
  then show ?thesis
    using assms(2) by (auto simp: Let_def saveRuptureFrontOutput_closed)
next
  case (SaveDynamicStressOutput f')
  then show ?thesis
    using assms(2) by (simp add: saveDynamicStressOutput_frame)
next
  case (OtherWork g)
  then show ?thesis
    using assms by (simp add: keepsDiagnostics_def)
qed

lemma call_keeps_dynStressTime:
  assumes "keepsDiagnostics c" "\<not> dynStressTimePending s f p"
  shows "\<not> dynStressTimePending (call n c s) f p
         \<and> dynStressTime (call n c s) f p = dynStressTime s f p"
proof (cases c)
  case (SaveRuptureFrontOutput f' slipRates t)
  then show ?thesis
    using assms(2) by (simp add: Let_def)
next
  case (SaveDynamicStressOutput f')
  then show ?thesis
    using assms(2) by (auto simp: saveDynamicStressOutput_pending saveDynamicStressOutput_time)
next
  case (OtherWork g)
  then show ?thesis
    using assms by (simp add: keepsDiagnostics_def)
qed

lemma trace_Cons: "\<exists>ss. trace n cs s = s # ss"
  by (cases cs) simp_all

lemma all_false_no_step: "\<forall>b\<in>set bs. \<not> b \<Longrightarrow> falling bs = 0 \<and> rising bs = 0"
  by (induction bs rule: falling.induct) auto

lemma cleared_stays:
  assumes "\<And>c s. c \<in> set cs \<Longrightarrow> \<not> P s \<Longrightarrow> \<not> P (call n c s) \<and> Q (call n c s) = Q s"
    and "\<not> P s"
  shows "\<forall>s'\<in>set (trace n cs s). \<not> P s' \<and> Q s' = (Q s :: real)"
  using assms
proof (induction cs arbitrary: s)
  case Nil
  then show ?case by simp
next
  case (Cons c cs)
  have st: "\<not> P (call n c s) \<and> Q (call n c s) = Q s"
    using Cons.prems by simp
  have "\<forall>s'\<in>set (trace n cs (call n c s)). \<not> P s' \<and> Q s' = Q (call n c s)"
    using Cons.IH [of "call n c s"] Cons.prems(1) st by simp
  with st Cons.prems(2) show ?case
    by simp
qed

lemma flag_steps:
  assumes "\<And>c s. c \<in> set cs \<Longrightarrow> \<not> P s \<Longrightarrow> \<not> P (call n c s) \<and> Q (call n c s) = (Q s :: real)"
  shows "rising (map P (trace n cs s)) = 0 \<and> falling (map P (trace n cs s)) \<le> 1"
  using assms
proof (induction cs arbitrary: s)
  case Nil
  show ?case by simp
next
  case (Cons c cs)
  let ?s' = "call n c s"
  obtain ss where ss: "trace n cs ?s' = ?s' # ss"
    using trace_Cons by blast
  have step: "\<And>c' s. c' \<in> set cs \<Longrightarrow> \<not> P s \<Longrightarrow> \<not> P (call n c' s) \<and> Q (call n c' s) = Q s"
    using Cons.prems by simp
  have ih: "rising (map P (trace n cs ?s')) = 0 \<and> falling (map P (trace n cs ?s')) \<le> 1"
    using Cons.IH [OF step] by blast
  show ?case
  proof (cases "P ?s'")
    case True
    then have "P s"
      using Cons.prems [of c s] by auto
    with True ih show ?thesis
      by (simp add: ss)
  next
    case False
    have "\<forall>s''\<in>set (trace n cs ?s'). \<not> P s'' \<and> Q s'' = Q ?s'"
      using cleared_stays [of cs P n Q ?s', OF step False] by blast
    then have "falling (map P (trace n cs ?s')) = 0 \<and> rising (map P (trace n cs ?s')) = 0"
      by (intro all_false_no_step) simp
    with False show ?thesis
      by (simp add: ss)
  qed
qed

text \<open>
  Claim C6. Along any sequence of calls of \<open>saveRuptureFrontOutput\<close> and
  \<open>saveDynamicStressOutput\<close>, with any other work in between that does not write the four
  diagnostic arrays, the rupture-time-pending flag and the dynamic-stress-pending flag
  of every point never step from false to true and step from true to false at most
  once; and from a state in which a point's flag is false, the flag stays false and the
  recorded \<open>ruptureTime\<close> (respectively \<open>dynStressTime\<close>) keeps its value in every later state.
\<close>

theorem pending_flags_write_once:
  assumes "\<forall>c\<in>set cs. keepsDiagnostics c"
  shows "rising (map (\<lambda>s. ruptureTimePending s ltsFace pointIndex) (trace numPaddedPoints cs s)) = 0
       \<and> falling (map (\<lambda>s. ruptureTimePending s ltsFace pointIndex) (trace numPaddedPoints cs s)) \<le> 1
       \<and> rising (map (\<lambda>s. dynStressTimePending s ltsFace pointIndex) (trace numPaddedPoints cs s)) = 0
       \<and> falling (map (\<lambda>s. dynStressTimePending s ltsFace pointIndex) (trace numPaddedPoints cs s)) \<le> 1
       \<and> (\<not> ruptureTimePending s ltsFace pointIndex \<longrightarrow>
            (\<forall>s'\<in>set (trace numPaddedPoints cs s).
               \<not> ruptureTimePending s' ltsFace pointIndex
               \<and> ruptureTime s' ltsFace pointIndex = ruptureTime s ltsFace pointIndex))
       \<and> (\<not> dynStressTimePending s ltsFace pointIndex \<longrightarrow>
            (\<forall>s'\<in>set (trace numPaddedPoints cs s).
               \<not> dynStressTimePending s' ltsFace pointIndex
               \<and> dynStressTime s' ltsFace pointIndex = dynStressTime s ltsFace pointIndex))"
proof -
  have r: "\<not> ruptureTimePending s ltsFace pointIndex \<Longrightarrow>
             \<not> ruptureTimePending (call numPaddedPoints c s) ltsFace pointIndex
             \<and> ruptureTime (call numPaddedPoints c s) ltsFace pointIndex
                 = ruptureTime s ltsFace pointIndex"
    if "c \<in> set cs" for c s
    using call_keeps_ruptureTime [of c s ltsFace pointIndex numPaddedPoints] assms that by blast
  have d: "\<not> dynStressTimePending s ltsFace pointIndex \<Longrightarrow>
             \<not> dynStressTimePending (call numPaddedPoints c s) ltsFace pointIndex
             \<and> dynStressTime (call numPaddedPoints c s) ltsFace pointIndex
                 = dynStressTime s ltsFace pointIndex"
    if "c \<in> set cs" for c s
    using call_keeps_dynStressTime [of c s ltsFace pointIndex numPaddedPoints] assms that by blast
  note fr = flag_steps [of cs "\<lambda>s. ruptureTimePending s ltsFace pointIndex" numPaddedPoints
      "\<lambda>s. ruptureTime s ltsFace pointIndex" s, OF r]
  note fd = flag_steps [of cs "\<lambda>s. dynStressTimePending s ltsFace pointIndex" numPaddedPoints
      "\<lambda>s. dynStressTime s ltsFace pointIndex" s, OF d]
  note cr = cleared_stays [of cs "\<lambda>s. ruptureTimePending s ltsFace pointIndex" numPaddedPoints
      "\<lambda>s. ruptureTime s ltsFace pointIndex" s, OF r]
  note cd = cleared_stays [of cs "\<lambda>s. dynStressTimePending s ltsFace pointIndex" numPaddedPoints
      "\<lambda>s. dynStressTime s ltsFace pointIndex" s, OF d]
  show ?thesis
    using fr fd cr cd by blast
qed

theorem pending_flags_write_once_witness:
  "list_all keepsDiagnostics exampleCalls
   \<and> map (\<lambda>s. ruptureTimePending s 0 0) (trace 2 exampleCalls exampleLaw)
       = [True, False, False, False, False]
   \<and> map (\<lambda>s. ruptureTime s 0 0) (trace 2 exampleCalls exampleLaw) = [0, 3, 3, 3, 3]
   \<and> map (\<lambda>s. dynStressTimePending s 0 0) (trace 2 exampleCalls exampleLaw)
       = [True, True, True, False, False]
   \<and> map (\<lambda>s. dynStressTime s 0 0) (trace 2 exampleCalls exampleLaw) = [0, 0, 0, 9, 9]
   \<and> rising (map (\<lambda>s. ruptureTimePending s 0 0) (trace 2 exampleCalls exampleLaw)) = 0
   \<and> falling (map (\<lambda>s. ruptureTimePending s 0 0) (trace 2 exampleCalls exampleLaw)) \<le> 1
   \<and> rising (map (\<lambda>s. dynStressTimePending s 0 0) (trace 2 exampleCalls exampleLaw)) = 0
   \<and> falling (map (\<lambda>s. dynStressTimePending s 0 0) (trace 2 exampleCalls exampleLaw)) \<le> 1"
proof -
  have k: "\<forall>c\<in>set exampleCalls. keepsDiagnostics c"
    by (simp add: exampleCalls_def keepsDiagnostics_def)
  have l: "map (\<lambda>s. ruptureTimePending s 0 0) (trace 2 exampleCalls exampleLaw)
             = [True, False, False, False, False]"
    "map (\<lambda>s. ruptureTime s 0 0) (trace 2 exampleCalls exampleLaw) = [0, 3, 3, 3, 3]"
    "map (\<lambda>s. dynStressTimePending s 0 0) (trace 2 exampleCalls exampleLaw)
       = [True, True, True, False, False]"
    "map (\<lambda>s. dynStressTime s 0 0) (trace 2 exampleCalls exampleLaw) = [0, 0, 0, 9, 9]"
    by (simp_all add: exampleCalls_def Let_def saveRuptureFrontOutput_closed
          saveDynamicStressOutput_pending saveDynamicStressOutput_time
          saveDynamicStressOutput_frame exampleLaw_def ruptureFrontThreshold_def)
  show ?thesis
    using pending_flags_write_once [OF k, of 0 0 2 exampleLaw] k l
    by (simp add: list_all_iff)
qed

end
